theory Spec2Isabelle
  imports Complex_Main
begin

section \<open>Values\<close>

text \<open>
  A JavaScript number is modelled by its exact value, a rational: every finite double is
  one. \<open>NaN\<close> and the infinities are not represented, and the double nearest to a
  decimal string is identified with the decimal itself.
\<close>

type_synonym number = rat

text \<open>
  \<open>+x.toFixed(2)\<close>. \<open>Number.prototype.toFixed\<close> takes the integer \<open>n\<close> for which
  \<open>n / 100 - x\<close> is closest to zero, the larger \<open>n\<close> on a tie, after moving the sign of
  a negative \<open>x\<close> in front; the unary plus reads the decimal back. (From \<open>10^21\<close> on
  \<open>toFixed\<close> prints the number itself; a double that large is an integer, which the
  rounding leaves alone as well.)
\<close>

definition toFixed2 :: "number \<Rightarrow> number" where
  "toFixed2 x =
     (if x < 0 then - (of_int \<lfloor>(- x) * 100 + 1 / 2\<rfloor> / 100)
      else of_int \<lfloor>x * 100 + 1 / 2\<rfloor> / 100)"

text \<open>
  An optional property of an object: the key is missing, the key is there and holds
  \<open>undefined\<close>, or it holds a value.
\<close>

datatype 'a field = Absent | Undefined | Present 'a

text \<open>\<open>x || d\<close> on an optional number: zero and \<open>undefined\<close> are falsy.\<close>

fun or_default :: "number field \<Rightarrow> number \<Rightarrow> number" where
  "or_default (Present n) d = (if n = 0 then d else n)"
| "or_default Undefined d = d"
| "or_default Absent d = d"

text \<open>The value type of an item's index signature: \<open>string | number | boolean | undefined\<close>.\<close>

datatype prim = PUndefined | PStr string | PNum number | PBool bool

text \<open>
  \<open>EcommerceItem\<close> (types/ecommerce.ts). \<open>price\<close> is required, \<open>quantity\<close> optional; the
  remaining optional properties (brand, categories, variant, coupon, ...) are kept as a
  list of key and value. \<open>CartItem\<close> picks a subset of the same properties.
\<close>

record EcommerceItem =
  item_id :: string
  item_name :: string
  price :: number
  quantity :: "number field"
  other_fields :: "(string \<times> prim) list"

type_synonym CartItem = EcommerceItem

datatype jsval =
    JUndefined
  | JNull
  | JBool bool
  | JNum number
  | JStr string
  | JArr "jsval list"
  | JObj "(string \<times> jsval) list"
  | JItems "EcommerceItem list"

text \<open>\<open>TEventParams = Record<string, unknown>\<close>; \<open>{...a, ...b}\<close> is \<open>a ++ b\<close>.\<close>

type_synonym TEventParams = "string \<rightharpoonup> jsval"

datatype EventCategory =
  ENGAGEMENT | ECOMMERCE | NAVIGATION | INTERACTION | CONVERSION | ERROR | PERFORMANCE | CUSTOM

record GAEvent =
  event_name :: string
  event_parameters :: TEventParams
  timestamp :: "nat option"
  event_category :: EventCategory

datatype InitializationState = NOT_INITIALIZED | INITIALIZING | INITIALIZED | FAILED

text \<open>
  \<open>GA4Config\<close>. An optional boolean that is missing is falsy, so \<open>debug\<close> and
  \<open>disableGA\<close> are booleans here. The constructor replaces the class's default
  configuration by a copy of its argument, so a missing \<open>currency\<close> stays missing.
\<close>

record GA4Config =
  measurementId :: string
  debug :: bool
  customConfig :: "(string \<times> jsval) list option"
  currency :: "string option"
  disableGA :: bool

datatype error = Error string | TypeError string | ReferenceError string

fun message :: "error \<Rightarrow> string" where
  "message (Error m) = m"
| "message (TypeError m) = m"
| "message (ReferenceError m) = m"

section \<open>The hosting environment\<close>

text \<open>
  \<open>window.gtag\<close> is either the function \<open>configureGA\<close> installs (it pushes its
  arguments on the data layer and returns) or a function put there by someone else, which
  may throw.
\<close>

datatype gtag_fn = DataLayerPush | Throwing error

datatype gtag_call =
    GtagJs nat
  | GtagConfig string bool
  | GtagConsent "(string \<times> jsval) list"
  | GtagEvent string TEventParams

datatype promise_state = Pending | Fulfilled | Rejected error

text \<open>
  What the runtime reads and writes outside itself. \<open>is_browser\<close> says that \<open>window\<close>
  and \<open>document\<close> exist. \<open>gtag_calls\<close> lists every invocation of \<open>window.gtag\<close> in
  order, \<open>script_tags\<close> the \<open>src\<close> of every script element appended to the document,
  \<open>promises\<close> the state of every promise created by \<open>loadGoogleAnalytics\<close> (a promise
  is named by its position), \<open>microtasks\<close> the \<open>onError\<close> callbacks queued with their
  error, and \<open>now\<close> is \<open>Date.now()\<close>.
\<close>

record world =
  is_browser :: bool
  gtag :: "gtag_fn option"
  gtag_calls :: "gtag_call list"
  script_tags :: "string list"
  promises :: "promise_state list"
  console :: "string list"
  microtasks :: "(nat \<times> error) list"
  now :: nat
  location_href :: string
  document_title :: string
  document_referrer :: string

definition isBrowser :: "world \<Rightarrow> bool" where
  "isBrowser w = is_browser w"

definition isGtagAvailable :: "world \<Rightarrow> bool" where
  "isGtagAvailable w = (isBrowser w \<and> (case gtag w of None \<Rightarrow> False | Some f \<Rightarrow> True))"

section \<open>GoogleAnalytics (core/GoogleAnalytics.ts)\<close>

record GoogleAnalytics =
  config :: GA4Config
  initializationState :: InitializationState
  gtagLoadPromise :: "nat option"

definition validateConfig :: "GA4Config \<Rightarrow> error + unit" where
  "validateConfig cfg =
     (if disableGA cfg then Inr ()
      else if measurementId cfg = [] then Inl (Error ''GA4 measurementId is required'')
      else Inr ())"

definition constructor :: "GA4Config \<Rightarrow> error + GoogleAnalytics" where
  "constructor cfg =
     (case validateConfig cfg of
        Inl e \<Rightarrow> Inl e
      | Inr u \<Rightarrow>
          Inr \<lparr>config = cfg, initializationState = NOT_INITIALIZED, gtagLoadPromise = None\<rparr>)"

definition isInitialized :: "GoogleAnalytics \<Rightarrow> world \<Rightarrow> bool" where
  "isInitialized ga w =
     (if disableGA (config ga) then True
      else initializationState ga = INITIALIZED \<or> isGtagAvailable w)"

definition getInitializationState :: "GoogleAnalytics \<Rightarrow> InitializationState" where
  "getInitializationState ga = initializationState ga"

definition destroy :: "GoogleAnalytics \<Rightarrow> GoogleAnalytics" where
  "destroy ga = ga\<lparr>gtagLoadPromise := None, initializationState := NOT_INITIALIZED\<rparr>"

definition configureGA :: "GA4Config \<Rightarrow> world \<Rightarrow> world" where
  "configureGA cfg w =
     (let w1 = w\<lparr>gtag := Some DataLayerPush\<rparr>;
          w2 = w1\<lparr>gtag_calls :=
                 gtag_calls w1 @ [GtagJs (now w1), GtagConfig (measurementId cfg) (debug cfg)]\<rparr>
      in case customConfig cfg of
           None \<Rightarrow> w2
         | Some c \<Rightarrow> w2\<lparr>gtag_calls := gtag_calls w2 @ [GtagConsent c]\<rparr>)"

definition script_src :: "string \<Rightarrow> string" where
  "script_src mid = ''https://www.googletagmanager.com/gtag/js?id='' @ mid"

text \<open>
  \<open>loadGoogleAnalytics\<close> runs to its end without suspending: the promise's executor
  runs inside \<open>new Promise\<close>. The result is the promise the caller gets: \<open>None\<close> for
  \<open>Promise.resolve()\<close>, \<open>Some p\<close> for the stored \<open>gtagLoadPromise\<close>. Outside a browser
  \<open>document.createElement\<close> throws inside the executor, which rejects the promise before
  \<open>configureGA\<close> is reached.
\<close>

definition loadGoogleAnalytics ::
  "GoogleAnalytics \<Rightarrow> world \<Rightarrow> nat option \<times> GoogleAnalytics \<times> world" where
  "loadGoogleAnalytics ga w =
     (if isInitialized ga w then (None, ga, w)
      else
        let p = length (promises w) in
        if isBrowser w then
          let w1 = w\<lparr>script_tags := script_tags w @ [script_src (measurementId (config ga))]\<rparr>;
              w2 = configureGA (config ga) w1
          in (Some p, ga\<lparr>gtagLoadPromise := Some p\<rparr>, w2\<lparr>promises := promises w2 @ [Pending]\<rparr>)
        else
          (Some p, ga\<lparr>gtagLoadPromise := Some p\<rparr>,
           w\<lparr>promises := promises w @ [Rejected (ReferenceError ''document is not defined'')]\<rparr>))"

text \<open>The script element's \<open>onload\<close> and \<open>onerror\<close>: they settle a pending promise.\<close>

definition settle :: "nat \<Rightarrow> promise_state \<Rightarrow> world \<Rightarrow> world" where
  "settle p s w =
     (if p < length (promises w) \<and> promises w ! p = Pending
      then w\<lparr>promises := (promises w)[p := s]\<rparr> else w)"

definition script_onload :: "nat \<Rightarrow> world \<Rightarrow> world" where
  "script_onload p w = settle p Fulfilled w"

definition script_onerror :: "nat \<Rightarrow> world \<Rightarrow> world" where
  "script_onerror p w = settle p (Rejected (Error ''Failed to load Google Analytics script'')) w"

text \<open>
  What a call of the asynchronous \<open>init\<close> has done when it gives control back:
  \<open>Resolved\<close>, it returned \<open>Promise.resolve()\<close>; \<open>Follows p\<close>, it returned the stored
  promise \<open>p\<close> and settles as \<open>p\<close> does; \<open>Awaits a\<close>, it is suspended at
  \<open>await this.loadGoogleAnalytics()\<close> on the promise \<open>a\<close>, and \<open>init_resume\<close> is the
  rest of its body.
\<close>

datatype init_status = Resolved | Follows nat | Awaits "nat option"

definition init :: "GoogleAnalytics \<Rightarrow> world \<Rightarrow> init_status \<times> GoogleAnalytics \<times> world" where
  "init ga w =
     (if isInitialized ga w then (Resolved, ga, w)
      else if initializationState ga = INITIALIZING then
        (case gtagLoadPromise ga of None \<Rightarrow> (Resolved, ga, w) | Some p \<Rightarrow> (Follows p, ga, w))
      else
        (case loadGoogleAnalytics (ga\<lparr>initializationState := INITIALIZING\<rparr>) w of
           (a, ga', w') \<Rightarrow> (Awaits a, ga', w')))"

text \<open>
  The state of the awaited promise decides how the suspended call goes on; it does not
  go on while the promise is pending.
\<close>

definition awaited :: "nat option \<Rightarrow> world \<Rightarrow> promise_state" where
  "awaited a w =
     (case a of
        None \<Rightarrow> Fulfilled
      | Some p \<Rightarrow> (if p < length (promises w) then promises w ! p else Pending))"

definition init_resume ::
  "promise_state \<Rightarrow> GoogleAnalytics \<Rightarrow> ((error + unit) \<times> GoogleAnalytics) option" where
  "init_resume s ga =
     (case s of
        Pending \<Rightarrow> None
      | Fulfilled \<Rightarrow> Some (Inr (), ga\<lparr>initializationState := INITIALIZED\<rparr>)
      | Rejected e \<Rightarrow>
          Some (Inl (Error (''GA4 initialization failed: '' @ message e)),
                ga\<lparr>initializationState := FAILED\<rparr>))"

text \<open>
  \<open>TrackingOptions\<close>: the two properties \<open>trackEvent\<close> reads. A missing
  \<open>customParameters\<close> spreads as the empty object; \<open>onError\<close> names the callback.
\<close>

record TrackingOptions =
  customParameters :: TEventParams
  onError :: "nat option"

definition noOptions :: TrackingOptions where
  "noOptions = \<lparr>customParameters = Map.empty, onError = None\<rparr>"

text \<open>
  \<open>trackEvent\<close> never throws: the call of \<open>window.gtag\<close> stands in a \<open>try\<close>, whose
  handler logs and queues \<open>onError\<close> as a microtask.
\<close>

definition trackEvent ::
  "GoogleAnalytics \<Rightarrow> GAEvent \<Rightarrow> TrackingOptions \<Rightarrow> world \<Rightarrow> (error + unit) \<times> world" where
  "trackEvent ga event options w =
     (if disableGA (config ga) then (Inr (), w)
      else if isGtagAvailable w then
        (let eventData = event_parameters event ++ customParameters options;
             w1 = w\<lparr>gtag_calls := gtag_calls w @ [GtagEvent (event_name event) eventData]\<rparr>
         in case gtag w of
              Some (Throwing err) \<Rightarrow>
                (Inr (),
                 w1\<lparr>console := console w1 @ [''GA4: Error tracking event''],
                     microtasks :=
                       (case onError options of
                          None \<Rightarrow> microtasks w1
                        | Some cb \<Rightarrow> microtasks w1 @ [(cb, err)])\<rparr>)
            | _ \<Rightarrow> (Inr (), w1))
      else (Inr (), w\<lparr>console := console w @ [''GA4: gtag not available'']\<rparr>))"

section \<open>Enumerations and event names\<close>

text \<open>
  An action arrives as a string at run time; the last constructor of each enumeration
  stands for a string that is none of the enumeration's members, which the \<open>default\<close>
  branch of a \<open>switch\<close> receives.
\<close>

datatype CartType =
  ADD_TO_CART | REMOVE_FROM_CART | VIEW_CART | UPDATE_CART | OtherCartType string

fun CartType_str :: "CartType \<Rightarrow> string" where
  "CartType_str ADD_TO_CART = ''add_to_cart''"
| "CartType_str REMOVE_FROM_CART = ''remove_from_cart''"
| "CartType_str VIEW_CART = ''view_cart''"
| "CartType_str UPDATE_CART = ''update_cart''"
| "CartType_str (OtherCartType s) = s"

text \<open>
  Modelled from the spec: the declarations of \<open>WishlistType\<close>, \<open>ItemType\<close> and
  \<open>PromotionType\<close> are not among the source files. Their members are the ones the
  builders' \<open>switch\<close> statements name (the action families of the spec's table: wishlist
  add/remove/view/update, item view/select/list, promotion view/select); the string of a
  member, which only an error message shows, is its name in lower case.
\<close>

datatype WishlistType =
  ADD_TO_WISHLIST | REMOVE_FROM_WISHLIST | VIEW_WISHLIST | UPDATE_WISHLIST
  | OtherWishlistType string

fun WishlistType_str :: "WishlistType \<Rightarrow> string" where
  "WishlistType_str ADD_TO_WISHLIST = ''add_to_wishlist''"
| "WishlistType_str REMOVE_FROM_WISHLIST = ''remove_from_wishlist''"
| "WishlistType_str VIEW_WISHLIST = ''view_wishlist''"
| "WishlistType_str UPDATE_WISHLIST = ''update_wishlist''"
| "WishlistType_str (OtherWishlistType s) = s"

datatype ItemType = SELECT_ITEM | VIEW_ITEM | VIEW_ITEM_LIST | OtherItemType string

fun ItemType_str :: "ItemType \<Rightarrow> string" where
  "ItemType_str SELECT_ITEM = ''select_item''"
| "ItemType_str VIEW_ITEM = ''view_item''"
| "ItemType_str VIEW_ITEM_LIST = ''view_item_list''"
| "ItemType_str (OtherItemType s) = s"

datatype PromotionType = VIEW_PROMOTION | SELECT_PROMOTION | OtherPromotionType string

fun PromotionType_str :: "PromotionType \<Rightarrow> string" where
  "PromotionType_str VIEW_PROMOTION = ''view_promotion''"
| "PromotionType_str SELECT_PROMOTION = ''select_promotion''"
| "PromotionType_str (OtherPromotionType s) = s"

text \<open>
  The entries of \<open>GA_EVENTS\<close> (utils/constants.ts) the builders read.

  Modelled from the spec: the table among the source files has no entry
  \<open>UPDATE_WISHLIST\<close>, \<open>SELECT_ITEM\<close>, \<open>VIEW_ITEM_LIST\<close>, \<open>VIEW_PROMOTION\<close> or
  \<open>SELECT_PROMOTION\<close>; each is given the event name of the same spelling, as every
  entry of the table that is there has.
\<close>

datatype GA_EVENT =
    EV_PAGE_VIEW | EV_SEARCH | EV_PURCHASE | EV_REFUND
  | EV_ADD_PAYMENT_INFO | EV_ADD_SHIPPING_INFO | EV_BEGIN_CHECKOUT
  | EV_ADD_TO_WISHLIST | EV_REMOVE_FROM_WISHLIST | EV_VIEW_WISHLIST | EV_UPDATE_WISHLIST
  | EV_ADD_TO_CART | EV_VIEW_CART | EV_UPDATE_CART | EV_REMOVE_FROM_CART
  | EV_VIEW_ITEM | EV_SELECT_ITEM | EV_VIEW_ITEM_LIST
  | EV_VIEW_PROMOTION | EV_SELECT_PROMOTION

fun GA_EVENTS :: "GA_EVENT \<Rightarrow> string" where
  "GA_EVENTS EV_PAGE_VIEW = ''page_view''"
| "GA_EVENTS EV_SEARCH = ''search''"
| "GA_EVENTS EV_PURCHASE = ''purchase''"
| "GA_EVENTS EV_REFUND = ''refund''"
| "GA_EVENTS EV_ADD_PAYMENT_INFO = ''add_payment_info''"
| "GA_EVENTS EV_ADD_SHIPPING_INFO = ''add_shipping_info''"
| "GA_EVENTS EV_BEGIN_CHECKOUT = ''begin_checkout''"
| "GA_EVENTS EV_ADD_TO_WISHLIST = ''add_to_wishlist''"
| "GA_EVENTS EV_REMOVE_FROM_WISHLIST = ''remove_from_wishlist''"
| "GA_EVENTS EV_VIEW_WISHLIST = ''view_wishlist''"
| "GA_EVENTS EV_UPDATE_WISHLIST = ''update_wishlist''"
| "GA_EVENTS EV_ADD_TO_CART = ''add_to_cart''"
| "GA_EVENTS EV_VIEW_CART = ''view_cart''"
| "GA_EVENTS EV_UPDATE_CART = ''update_cart''"
| "GA_EVENTS EV_REMOVE_FROM_CART = ''remove_from_cart''"
| "GA_EVENTS EV_VIEW_ITEM = ''view_item''"
| "GA_EVENTS EV_SELECT_ITEM = ''select_item''"
| "GA_EVENTS EV_VIEW_ITEM_LIST = ''view_item_list''"
| "GA_EVENTS EV_VIEW_PROMOTION = ''view_promotion''"
| "GA_EVENTS EV_SELECT_PROMOTION = ''select_promotion''"

section \<open>Shared pieces of the builders\<close>

text \<open>
  The function every builder maps over its items:
  \<open>(item) => ({ quantity: item.quantity || 1, ...item, price: +item.price.toFixed(2) })\<close>.
  The object literal is filled from left to right: first the defaulted quantity, then
  every own property of \<open>item\<close> (its \<open>quantity\<close> too, when it has the key), then the
  rounded price.
\<close>

definition mapItem :: "EcommerceItem \<Rightarrow> EcommerceItem" where
  "mapItem item =
     (let q0 = Present (or_default (quantity item) 1);
          q1 = (case quantity item of Absent \<Rightarrow> q0 | Undefined \<Rightarrow> Undefined | Present n \<Rightarrow> Present n)
      in item\<lparr>quantity := q1, price := toFixed2 (price item)\<rparr>)"

text \<open>\<open>this.config.currency\<close> as a parameter value.\<close>

definition config_currency :: "GA4Config \<Rightarrow> jsval" where
  "config_currency cfg = (case currency cfg of None \<Rightarrow> JUndefined | Some c \<Rightarrow> JStr c)"

text \<open>An optional string or number as a parameter value.\<close>

definition opt_str :: "string option \<Rightarrow> jsval" where
  "opt_str s = (case s of None \<Rightarrow> JUndefined | Some x \<Rightarrow> JStr x)"

definition opt_num :: "number option \<Rightarrow> jsval" where
  "opt_num n = (case n of None \<Rightarrow> JUndefined | Some x \<Rightarrow> JNum x)"

text \<open>
  \<open>EcommerceTrackingOptions\<close> (types/ecommerce.ts): every property is optional, and
  \<open>None\<close> says the key is missing. \<open>spread_options\<close> is the object as the spread
  \<open>...customParams\<close> sees it.
\<close>

record EcommerceTrackingOptions =
  options_transactionId :: "string option"
  affiliation :: "string option"
  coupon :: "string option"
  shipping :: "number option"
  currency_code :: "string option"
  tax :: "number option"
  options_customParams :: "(string \<times> jsval) list option"

definition opt_key :: "string \<Rightarrow> ('a \<Rightarrow> jsval) \<Rightarrow> 'a option \<Rightarrow> TEventParams" where
  "opt_key k f x = (case x of None \<Rightarrow> Map.empty | Some v \<Rightarrow> [k \<mapsto> f v])"

definition spread_options :: "EcommerceTrackingOptions \<Rightarrow> TEventParams" where
  "spread_options opts =
     opt_key ''transactionId'' JStr (options_transactionId opts)
     ++ opt_key ''affiliation'' JStr (affiliation opts)
     ++ opt_key ''coupon'' JStr (coupon opts)
     ++ opt_key ''shipping'' JNum (shipping opts)
     ++ opt_key ''currency'' JStr (currency_code opts)
     ++ opt_key ''tax'' JNum (tax opts)
     ++ opt_key ''customParams'' JObj (options_customParams opts)"

text \<open>What a builder does with the event it has built, or with the error it raised.\<close>

definition dispatch ::
  "GoogleAnalytics \<Rightarrow> error + GAEvent \<Rightarrow> world \<Rightarrow> (error + unit) \<times> world" where
  "dispatch ga r w = (case r of Inl e \<Rightarrow> (Inl e, w) | Inr ev \<Rightarrow> trackEvent ga ev noOptions w)"

text \<open>\<open>if (this.config.debug) console.warn(msg)\<close>.\<close>

definition warn_debug :: "GoogleAnalytics \<Rightarrow> string \<Rightarrow> world \<Rightarrow> world" where
  "warn_debug ga msg w = (if debug (config ga) then w\<lparr>console := console w @ [msg]\<rparr> else w)"

text \<open>
  \<open>String.prototype.trim\<close>. A character is a code unit below 256; the white space and
  line terminators of that range are tab, line feed, vertical tab, form feed, carriage
  return, space and the no-break space.
\<close>

definition isWhiteSpace :: "char \<Rightarrow> bool" where
  "isWhiteSpace c =
     (c \<in> set [CHR 0x09, CHR 0x0A, CHR 0x0B, CHR 0x0C, CHR 0x0D, CHR 0x20, CHR 0xA0])"

definition trim :: "string \<Rightarrow> string" where
  "trim s = rev (dropWhile isWhiteSpace (rev (dropWhile isWhiteSpace s)))"

section \<open>GATracker, the builders with positional arguments\<close>

text \<open>
  Each builder is written in two steps, as its body is: \<open>f_event\<close> checks the arguments
  and builds the event (or raises), and \<open>f\<close> hands the event to \<open>trackEvent\<close>.
\<close>

definition buildEvent :: "string \<Rightarrow> TEventParams \<Rightarrow> EventCategory \<Rightarrow> world \<Rightarrow> GAEvent" where
  "buildEvent name params category w =
     \<lparr>event_name = name, event_parameters = params, timestamp = Some (now w),
      event_category = category\<rparr>"

record PageViewOptions =
  path :: "string option"
  title :: "string option"
  referrer :: "string option"
  pv_customParams :: TEventParams

definition trackPage_event :: "PageViewOptions \<Rightarrow> world \<Rightarrow> GAEvent option" where
  "trackPage_event options w =
     (let pageUrl = (case path options of
                       Some p \<Rightarrow> Some p
                     | None \<Rightarrow> (if isBrowser w then Some (location_href w) else None))
      in case pageUrl of
           None \<Rightarrow> None
         | Some url \<Rightarrow>
             if url = [] then None
             else
               let pageTitle = (case title options of
                                  Some t \<Rightarrow> t
                                | None \<Rightarrow> (if isBrowser w then document_title w else []));
                   pageReferrer = (case referrer options of
                                     Some r \<Rightarrow> r
                                   | None \<Rightarrow> (if isBrowser w then document_referrer w else []))
               in Some (buildEvent (GA_EVENTS EV_PAGE_VIEW)
                          ([''page_title'' \<mapsto> JStr pageTitle,
                            ''page_location'' \<mapsto> JStr url,
                            ''page_referrer'' \<mapsto> JStr pageReferrer]
                           ++ pv_customParams options)
                          ENGAGEMENT w))"

definition trackPage ::
  "GoogleAnalytics \<Rightarrow> PageViewOptions \<Rightarrow> world \<Rightarrow> (error + unit) \<times> world" where
  "trackPage ga options w =
     (case trackPage_event options w of
        None \<Rightarrow> (Inr (), warn_debug ga ''GA4: Cannot track page view without path'' w)
      | Some event \<Rightarrow> trackEvent ga event noOptions w)"

definition trackSearch_event :: "string \<Rightarrow> TEventParams \<Rightarrow> world \<Rightarrow> GAEvent option" where
  "trackSearch_event searchTerm options w =
     (if trim searchTerm = [] then None
      else Some (buildEvent (GA_EVENTS EV_SEARCH)
                   ([''search_term'' \<mapsto> JStr (trim searchTerm)] ++ options)
                   ENGAGEMENT w))"

definition trackSearch ::
  "GoogleAnalytics \<Rightarrow> string \<Rightarrow> TEventParams \<Rightarrow> world \<Rightarrow> (error + unit) \<times> world" where
  "trackSearch ga searchTerm options w =
     (case trackSearch_event searchTerm options w of
        None \<Rightarrow> (Inr (), warn_debug ga ''GA4: Search term is required'' w)
      | Some event \<Rightarrow> trackEvent ga event noOptions w)"

fun ItemType_eventName :: "ItemType \<Rightarrow> error + string" where
  "ItemType_eventName SELECT_ITEM = Inr (GA_EVENTS EV_SELECT_ITEM)"
| "ItemType_eventName VIEW_ITEM = Inr (GA_EVENTS EV_VIEW_ITEM)"
| "ItemType_eventName VIEW_ITEM_LIST = Inr (GA_EVENTS EV_VIEW_ITEM_LIST)"
| "ItemType_eventName (OtherItemType s) = Inl (Error (''GA4: Unsupported cart action '' @ s))"

definition trackItem_event ::
  "GA4Config \<Rightarrow> ItemType \<Rightarrow> CartItem list \<Rightarrow> string option \<Rightarrow> string option \<Rightarrow> number option
    \<Rightarrow> TEventParams \<Rightarrow> world \<Rightarrow> error + GAEvent" where
  "trackItem_event cfg action items item_list_id item_list_name value customParams w =
     (if items = [] then
        Inl (Error (''GA4: Cannot track '' @ ItemType_str action @ '' with empty items''))
      else
        case ItemType_eventName action of
          Inl e \<Rightarrow> Inl e
        | Inr eventName \<Rightarrow>
            let eventParams = [''items'' \<mapsto> JItems (map mapItem items)] ++ customParams;
                eventParams' =
                  (if action = VIEW_ITEM then
                     eventParams(''currency'' \<mapsto> config_currency cfg, ''value'' \<mapsto> opt_num value)
                   else
                     eventParams(''item_list_id'' \<mapsto> opt_str item_list_id,
                                 ''item_list_name'' \<mapsto> opt_str item_list_name))
            in Inr (buildEvent eventName eventParams' ECOMMERCE w))"

definition trackItem ::
  "GoogleAnalytics \<Rightarrow> ItemType \<Rightarrow> CartItem list \<Rightarrow> string option \<Rightarrow> string option
    \<Rightarrow> number option \<Rightarrow> TEventParams \<Rightarrow> world \<Rightarrow> (error + unit) \<times> world" where
  "trackItem ga action items item_list_id item_list_name value customParams w =
     dispatch ga
       (trackItem_event (config ga) action items item_list_id item_list_name value customParams w) w"

fun CartType_eventName :: "CartType \<Rightarrow> error + string" where
  "CartType_eventName ADD_TO_CART = Inr (GA_EVENTS EV_ADD_TO_CART)"
| "CartType_eventName REMOVE_FROM_CART = Inr (GA_EVENTS EV_REMOVE_FROM_CART)"
| "CartType_eventName VIEW_CART = Inr (GA_EVENTS EV_VIEW_CART)"
| "CartType_eventName UPDATE_CART = Inr (GA_EVENTS EV_UPDATE_CART)"
| "CartType_eventName (OtherCartType s) = Inl (Error (''GA4: Unsupported cart action '' @ s))"

text \<open>
  The declared type of \<open>value\<close> is \<open>number\<close>; the guards \<open>!value\<close> and
  \<open>value == null\<close> also answer a \<open>null\<close> or \<open>undefined\<close> passed at run time, which
  \<open>None\<close> stands for.
\<close>

definition trackCart_event ::
  "GA4Config \<Rightarrow> CartType \<Rightarrow> CartItem list \<Rightarrow> number option \<Rightarrow> TEventParams \<Rightarrow> world
    \<Rightarrow> error + GAEvent" where
  "trackCart_event cfg action items value customParams w =
     (if items = [] then
        Inl (Error (''GA4: Cannot track '' @ CartType_str action @ '' with empty items''))
      else
        case value of
          None \<Rightarrow> Inl (Error (''GA4: Cannot track '' @ CartType_str action @ '' without value''))
        | Some v \<Rightarrow>
            if v = 0 then
              Inl (Error (''GA4: Cannot track '' @ CartType_str action @ '' without value''))
            else
              case CartType_eventName action of
                Inl e \<Rightarrow> Inl e
              | Inr eventName \<Rightarrow>
                  Inr (buildEvent eventName
                         ([''currency'' \<mapsto> config_currency cfg,
                           ''value'' \<mapsto> JNum (toFixed2 v),
                           ''items'' \<mapsto> JItems (map mapItem items)]
                          ++ customParams)
                         ECOMMERCE w))"

definition trackCart ::
  "GoogleAnalytics \<Rightarrow> CartType \<Rightarrow> CartItem list \<Rightarrow> number option \<Rightarrow> TEventParams \<Rightarrow> world
    \<Rightarrow> (error + unit) \<times> world" where
  "trackCart ga action items value customParams w =
     dispatch ga (trackCart_event (config ga) action items value customParams w) w"

fun WishlistType_eventName :: "WishlistType \<Rightarrow> error + string" where
  "WishlistType_eventName ADD_TO_WISHLIST = Inr (GA_EVENTS EV_ADD_TO_WISHLIST)"
| "WishlistType_eventName REMOVE_FROM_WISHLIST = Inr (GA_EVENTS EV_REMOVE_FROM_WISHLIST)"
| "WishlistType_eventName VIEW_WISHLIST = Inr (GA_EVENTS EV_VIEW_WISHLIST)"
| "WishlistType_eventName UPDATE_WISHLIST = Inr (GA_EVENTS EV_UPDATE_WISHLIST)"
| "WishlistType_eventName (OtherWishlistType s) =
     Inl (Error (''GA4: Unsupported wishlist action '' @ s))"

definition trackWishlist_event ::
  "GA4Config \<Rightarrow> WishlistType \<Rightarrow> CartItem list \<Rightarrow> number option \<Rightarrow> TEventParams \<Rightarrow> world
    \<Rightarrow> error + GAEvent" where
  "trackWishlist_event cfg action items value customParams w =
     (if items = [] then
        Inl (Error (''GA4: Cannot track '' @ WishlistType_str action @ '' with empty items''))
      else
        case value of
          None \<Rightarrow>
            Inl (Error (''GA4: Cannot track '' @ WishlistType_str action @ '' without value''))
        | Some v \<Rightarrow>
            if v = 0 then
              Inl (Error (''GA4: Cannot track '' @ WishlistType_str action @ '' without value''))
            else
              case WishlistType_eventName action of
                Inl e \<Rightarrow> Inl e
              | Inr eventName \<Rightarrow>
                  Inr (buildEvent eventName
                         ([''currency'' \<mapsto> config_currency cfg,
                           ''value'' \<mapsto> JNum (toFixed2 v),
                           ''items'' \<mapsto> JItems (map mapItem items)]
                          ++ customParams)
                         ECOMMERCE w))"

definition trackWishlist ::
  "GoogleAnalytics \<Rightarrow> WishlistType \<Rightarrow> CartItem list \<Rightarrow> number option \<Rightarrow> TEventParams \<Rightarrow> world
    \<Rightarrow> (error + unit) \<times> world" where
  "trackWishlist ga action items value customParams w =
     dispatch ga (trackWishlist_event (config ga) action items value customParams w) w"

definition trackShippingInfo_event ::
  "GA4Config \<Rightarrow> CartItem list \<Rightarrow> number option \<Rightarrow> string \<Rightarrow> TEventParams \<Rightarrow> world
    \<Rightarrow> error + GAEvent" where
  "trackShippingInfo_event cfg items value shipping_tier customParams w =
     (if items = [] then Inl (Error ''GA4: Cannot track shipping info with empty items'')
      else
        case value of
          None \<Rightarrow> Inl (Error ''GA4: Cannot track shipping info without value'')
        | Some v \<Rightarrow>
            if v = 0 then Inl (Error ''GA4: Cannot track shipping info without value'')
            else
              Inr (buildEvent (GA_EVENTS EV_ADD_SHIPPING_INFO)
                     ([''currency'' \<mapsto> config_currency cfg,
                       ''value'' \<mapsto> JNum (toFixed2 v),
                       ''items'' \<mapsto> JItems (map mapItem items),
                       ''shipping_tier'' \<mapsto> JStr shipping_tier]
                      ++ customParams)
                     ECOMMERCE w))"

definition trackShippingInfo ::
  "GoogleAnalytics \<Rightarrow> CartItem list \<Rightarrow> number option \<Rightarrow> string \<Rightarrow> TEventParams \<Rightarrow> world
    \<Rightarrow> (error + unit) \<times> world" where
  "trackShippingInfo ga items value shipping_tier customParams w =
     dispatch ga (trackShippingInfo_event (config ga) items value shipping_tier customParams w) w"

definition trackPaymentInfo_event ::
  "GA4Config \<Rightarrow> CartItem list \<Rightarrow> number option \<Rightarrow> string \<Rightarrow> TEventParams \<Rightarrow> world
    \<Rightarrow> error + GAEvent" where
  "trackPaymentInfo_event cfg items value payment_type customParams w =
     (if items = [] then Inl (Error ''GA4: Cannot track payment info with empty items'')
      else
        case value of
          None \<Rightarrow> Inl (Error ''GA4: Cannot track payment info without value'')
        | Some v \<Rightarrow>
            if v = 0 then Inl (Error ''GA4: Cannot track payment info without value'')
            else
              Inr (buildEvent (GA_EVENTS EV_ADD_PAYMENT_INFO)
                     ([''currency'' \<mapsto> config_currency cfg,
                       ''value'' \<mapsto> JNum (toFixed2 v),
                       ''items'' \<mapsto> JItems (map mapItem items),
                       ''payment_type'' \<mapsto> JStr payment_type]
                      ++ customParams)
                     ECOMMERCE w))"

definition trackPaymentInfo ::
  "GoogleAnalytics \<Rightarrow> CartItem list \<Rightarrow> number option \<Rightarrow> string \<Rightarrow> TEventParams \<Rightarrow> world
    \<Rightarrow> (error + unit) \<times> world" where
  "trackPaymentInfo ga items value payment_type customParams w =
     dispatch ga (trackPaymentInfo_event (config ga) items value payment_type customParams w) w"

definition trackPurchase_event ::
  "GA4Config \<Rightarrow> string \<Rightarrow> number \<Rightarrow> EcommerceItem list \<Rightarrow> EcommerceTrackingOptions \<Rightarrow> world
    \<Rightarrow> error + GAEvent" where
  "trackPurchase_event cfg transactionId value items opts w =
     (if transactionId = [] \<or> value \<le> 0 then Inl (Error ''GA4: Invalid purchase parameters'')
      else
        Inr (buildEvent (GA_EVENTS EV_PURCHASE)
               ([''transaction_id'' \<mapsto> JStr transactionId,
                 ''currency'' \<mapsto> config_currency cfg,
                 ''value'' \<mapsto> JNum (toFixed2 value),
                 ''items'' \<mapsto> JItems (map mapItem items)]
                ++ spread_options opts)
               ECOMMERCE w))"

definition trackPurchase ::
  "GoogleAnalytics \<Rightarrow> string \<Rightarrow> number \<Rightarrow> EcommerceItem list \<Rightarrow> EcommerceTrackingOptions
    \<Rightarrow> world \<Rightarrow> (error + unit) \<times> world" where
  "trackPurchase ga transactionId value items opts w =
     dispatch ga (trackPurchase_event (config ga) transactionId value items opts w) w"

definition trackRefund_event ::
  "GA4Config \<Rightarrow> string \<Rightarrow> number \<Rightarrow> EcommerceItem list \<Rightarrow> EcommerceTrackingOptions \<Rightarrow> world
    \<Rightarrow> error + GAEvent" where
  "trackRefund_event cfg transactionId value items opts w =
     (if transactionId = [] \<or> value \<le> 0 then Inl (Error ''GA4: Invalid refund parameters'')
      else
        Inr (buildEvent (GA_EVENTS EV_REFUND)
               ([''transaction_id'' \<mapsto> JStr transactionId,
                 ''currency'' \<mapsto> config_currency cfg,
                 ''value'' \<mapsto> JNum (toFixed2 value),
                 ''items'' \<mapsto> JItems (map mapItem items)]
                ++ spread_options opts)
               ECOMMERCE w))"

definition trackRefund ::
  "GoogleAnalytics \<Rightarrow> string \<Rightarrow> number \<Rightarrow> EcommerceItem list \<Rightarrow> EcommerceTrackingOptions
    \<Rightarrow> world \<Rightarrow> (error + unit) \<times> world" where
  "trackRefund ga transactionId value items opts w =
     dispatch ga (trackRefund_event (config ga) transactionId value items opts w) w"

fun PromotionType_eventName :: "PromotionType \<Rightarrow> error + string" where
  "PromotionType_eventName VIEW_PROMOTION = Inr (GA_EVENTS EV_VIEW_PROMOTION)"
| "PromotionType_eventName SELECT_PROMOTION = Inr (GA_EVENTS EV_SELECT_PROMOTION)"
| "PromotionType_eventName (OtherPromotionType s) =
     Inl (Error (''GA4: Unsupported promotion action '' @ s))"

definition trackPromotion_event ::
  "GA4Config \<Rightarrow> PromotionType \<Rightarrow> CartItem list \<Rightarrow> string \<Rightarrow> string \<Rightarrow> string \<Rightarrow> string
    \<Rightarrow> TEventParams \<Rightarrow> world \<Rightarrow> error + GAEvent" where
  "trackPromotion_event cfg action items creative_name creative_slot promotion_id promotion_name
       customParams w =
     (if items = [] then
        Inl (Error (''GA4: Cannot track '' @ PromotionType_str action @ '' with empty items''))
      else if creative_name = [] then
        Inl (Error (''GA4: Cannot track '' @ PromotionType_str action @ '' without creative_name''))
      else
        case PromotionType_eventName action of
          Inl e \<Rightarrow> Inl e
        | Inr eventName \<Rightarrow>
            Inr (buildEvent eventName
                   ([''creative_name'' \<mapsto> JStr creative_name,
                     ''creative_slot'' \<mapsto> JStr creative_slot,
                     ''promotion_id'' \<mapsto> JStr promotion_id,
                     ''promotion_name'' \<mapsto> JStr promotion_name,
                     ''items'' \<mapsto> JItems (map mapItem items)]
                    ++ customParams)
                   ECOMMERCE w))"

definition trackPromotion ::
  "GoogleAnalytics \<Rightarrow> PromotionType \<Rightarrow> CartItem list \<Rightarrow> string \<Rightarrow> string \<Rightarrow> string \<Rightarrow> string
    \<Rightarrow> TEventParams \<Rightarrow> world \<Rightarrow> (error + unit) \<times> world" where
  "trackPromotion ga action items creative_name creative_slot promotion_id promotion_name
       customParams w =
     dispatch ga
       (trackPromotion_event (config ga) action items creative_name creative_slot promotion_id
          promotion_name customParams w) w"

section \<open>GATracker, the builders with one object parameter\<close>

text \<open>
  The revision of the class whose builders take a single object. Its \<open>buildEvent\<close>
  stamps no time. Of its builders, the two that differ from the positional ones in what
  they check or are read side by side with them are modelled: \<open>trackWishlist\<close>, whose
  guard is \<open>value == null\<close>, and \<open>trackPurchase\<close>.
\<close>

definition buildEvent_obj :: "string \<Rightarrow> TEventParams \<Rightarrow> EventCategory \<Rightarrow> GAEvent" where
  "buildEvent_obj name params category =
     \<lparr>event_name = name, event_parameters = params, timestamp = None,
      event_category = category\<rparr>"

definition trackWishlist_obj_event ::
  "GA4Config \<Rightarrow> WishlistType \<Rightarrow> CartItem list \<Rightarrow> number option \<Rightarrow> TEventParams
    \<Rightarrow> error + GAEvent" where
  "trackWishlist_obj_event cfg action items value customParams =
     (if items = [] then
        Inl (Error (''GA4: Cannot track '' @ WishlistType_str action @ '' with empty items''))
      else
        case value of
          None \<Rightarrow>
            Inl (Error (''GA4: Cannot track '' @ WishlistType_str action @ '' without value''))
        | Some v \<Rightarrow>
            (case WishlistType_eventName action of
               Inl e \<Rightarrow> Inl e
             | Inr eventName \<Rightarrow>
                 Inr (buildEvent_obj eventName
                        ([''currency'' \<mapsto> config_currency cfg,
                          ''value'' \<mapsto> JNum (toFixed2 v),
                          ''items'' \<mapsto> JItems (map mapItem items)]
                         ++ customParams)
                        ECOMMERCE)))"

definition trackWishlist_obj ::
  "GoogleAnalytics \<Rightarrow> WishlistType \<Rightarrow> CartItem list \<Rightarrow> number option \<Rightarrow> TEventParams \<Rightarrow> world
    \<Rightarrow> (error + unit) \<times> world" where
  "trackWishlist_obj ga action items value customParams w =
     dispatch ga (trackWishlist_obj_event (config ga) action items value customParams) w"

definition trackPurchase_obj_event ::
  "GA4Config \<Rightarrow> string \<Rightarrow> number \<Rightarrow> EcommerceItem list \<Rightarrow> EcommerceTrackingOptions
    \<Rightarrow> error + GAEvent" where
  "trackPurchase_obj_event cfg transactionId value items opts =
     (if transactionId = [] \<or> value \<le> 0 then Inl (Error ''GA4: Invalid purchase parameters'')
      else
        Inr (buildEvent_obj (GA_EVENTS EV_PURCHASE)
               ([''transaction_id'' \<mapsto> JStr transactionId,
                 ''currency'' \<mapsto> config_currency cfg,
                 ''value'' \<mapsto> JNum (toFixed2 value),
                 ''items'' \<mapsto> JItems (map mapItem items)]
                ++ spread_options opts)
               ECOMMERCE))"

definition trackPurchase_obj ::
  "GoogleAnalytics \<Rightarrow> string \<Rightarrow> number \<Rightarrow> EcommerceItem list \<Rightarrow> EcommerceTrackingOptions
    \<Rightarrow> world \<Rightarrow> (error + unit) \<times> world" where
  "trackPurchase_obj ga transactionId value items opts w =
     dispatch ga (trackPurchase_obj_event (config ga) transactionId value items opts) w"

section \<open>GATracker, the earliest revision\<close>

text \<open>
  The revision with \<open>trackPageView\<close>. Its \<open>trackPurchase\<close> passes the items as they
  are, and only when there are any: \<open>...(items.length && { items })\<close> spreads the number
  \<open>0\<close>, which has no properties, for an empty list.
\<close>

definition trackPurchase_old_event ::
  "GA4Config \<Rightarrow> string \<Rightarrow> number \<Rightarrow> EcommerceItem list \<Rightarrow> EcommerceTrackingOptions \<Rightarrow> world
    \<Rightarrow> error + GAEvent" where
  "trackPurchase_old_event cfg transactionId value items opts w =
     (if transactionId = [] \<or> value \<le> 0 then Inl (Error ''GA4: Invalid purchase parameters'')
      else
        Inr (buildEvent (GA_EVENTS EV_PURCHASE)
               ([''transaction_id'' \<mapsto> JStr transactionId,
                 ''value'' \<mapsto> JNum (toFixed2 value),
                 ''currency'' \<mapsto> config_currency cfg]
                ++ (if items = [] then Map.empty else [''items'' \<mapsto> JItems items])
                ++ spread_options opts)
               ECOMMERCE w))"

definition trackPurchase_old ::
  "GoogleAnalytics \<Rightarrow> string \<Rightarrow> number \<Rightarrow> EcommerceItem list \<Rightarrow> EcommerceTrackingOptions
    \<Rightarrow> world \<Rightarrow> (error + unit) \<times> world" where
  "trackPurchase_old ga transactionId value items opts w =
     dispatch ga (trackPurchase_old_event (config ga) transactionId value items opts w) w"

section \<open>Reading an event\<close>

text \<open>The \<open>items\<close> parameter of an event, when it is an item list.\<close>

definition items_of :: "GAEvent \<Rightarrow> EcommerceItem list" where
  "items_of ev = (case event_parameters ev ''items'' of Some (JItems xs) \<Rightarrow> xs | _ \<Rightarrow> [])"

text \<open>The reporting channel takes calls and the runtime is not disabled.\<close>

definition ready :: "GoogleAnalytics \<Rightarrow> world \<Rightarrow> bool" where
  "ready ga w = (if disableGA (config ga) then False else isGtagAvailable w)"

text \<open>The items of the event a builder has built; none when it raised.\<close>

definition built_items :: "error + GAEvent \<Rightarrow> EcommerceItem list" where
  "built_items r = (case r of Inl e \<Rightarrow> [] | Inr ev \<Rightarrow> items_of ev)"

text \<open>
  The events the reporting function has been called with: the name of each, with the
  parameter \<open>key\<close> it carried.
\<close>

definition reported :: "string \<Rightarrow> world \<Rightarrow> (string \<times> jsval option) list" where
  "reported key w =
     concat (map (\<lambda>c. case c of GtagEvent n d \<Rightarrow> [(n, d key)] | _ \<Rightarrow> []) (gtag_calls w))"

section \<open>Validation (utils/validation.ts)\<close>

text \<open>\<open>VALIDATION_PATTERNS.MEASUREMENT_ID.test(id)\<close>, the pattern \<open>/^G-[A-Z0-9]{10}$/\<close>.\<close>

definition validateMeasurementId :: "string \<Rightarrow> bool" where
  "validateMeasurementId s =
     (length s = 12 \<and> take 2 s = ''G-''
      \<and> list_all (\<lambda>c. (65 \<le> (of_char c :: nat) \<and> (of_char c :: nat) \<le> 90)
                       \<or> (48 \<le> (of_char c :: nat) \<and> (of_char c :: nat) \<le> 57))
                  (drop 2 s))"

section \<open>What the specification asks of a normalised item\<close>

text \<open>
  \<open>y\<close> is \<open>x\<close> rounded to two decimal places, a half going away from zero: \<open>y\<close> is a
  whole number of hundredths, no other one is nearer to \<open>x\<close>, and of two equally near
  ones \<open>y\<close> is the larger in magnitude.
\<close>

definition rounded_2dp :: "number \<Rightarrow> number \<Rightarrow> bool" where
  "rounded_2dp x y =
     (of_int \<lfloor>y * 100\<rfloor> = y * 100 \<and> \<bar>y - x\<bar> \<le> 1 / 200
      \<and> (if \<bar>y - x\<bar> = 1 / 200 then \<bar>x\<bar> < \<bar>y\<bar> else True))"

definition at_least_one :: "number field \<Rightarrow> bool" where
  "at_least_one q = (case q of Present n \<Rightarrow> 1 \<le> n | Undefined \<Rightarrow> False | Absent \<Rightarrow> False)"

text \<open>
  An output item against its input item: the price is rounded; a missing quantity has
  become 1 and a quantity that is a number other than zero is kept, so the quantity is at
  least 1 when the input's is missing or at least 1; every other property is the
  input's. Nothing is said of a quantity that is there and is zero or \<open>undefined\<close>.
\<close>

definition normalised :: "EcommerceItem \<Rightarrow> EcommerceItem \<Rightarrow> bool" where
  "normalised inp out =
     (rounded_2dp (price inp) (price out)
      \<and> (case quantity inp of
            Absent \<Rightarrow> quantity out = Present 1
          | Undefined \<Rightarrow> True
          | Present q \<Rightarrow> (if q = 0 then True else quantity out = Present q))
      \<and> (if quantity inp = Absent \<or> at_least_one (quantity inp)
          then at_least_one (quantity out) else True)
      \<and> item_id out = item_id inp \<and> item_name out = item_name inp
      \<and> other_fields out = other_fields inp)"

section \<open>What the specification asks of a purchase event\<close>

text \<open>
  The event has the name \<open>purchase\<close>, and its parameters hold the transaction id and the
  value.
\<close>

definition purchase_event_of :: "string \<Rightarrow> number \<Rightarrow> GAEvent \<Rightarrow> bool" where
  "purchase_event_of tid v ev =
     (event_name ev = ''purchase''
      \<and> event_parameters ev ''transaction_id'' = Some (JStr tid)
      \<and> event_parameters ev ''value'' = Some (JNum v))"

section \<open>Example values\<close>

definition shop_config :: GA4Config where
  "shop_config =
     \<lparr>measurementId = ''G-ABCDE12345'', debug = False, customConfig = None,
      currency = Some ''USD'', disableGA = False\<rparr>"

definition shop_tracker :: GoogleAnalytics where
  "shop_tracker =
     \<lparr>config = shop_config, initializationState = NOT_INITIALIZED, gtagLoadPromise = None\<rparr>"

text \<open>A page that has just been opened: a browser, no \<open>window.gtag\<close> yet.\<close>

definition fresh_page :: world where
  "fresh_page =
     \<lparr>is_browser = True, gtag = None, gtag_calls = [], script_tags = [], promises = [],
      console = [], microtasks = [], now = 0, location_href = ''https://shop.example/cart'',
      document_title = ''Cart'', document_referrer = []\<rparr>"

text \<open>The same page once the reporting function is there.\<close>

definition tagged_page :: world where
  "tagged_page = fresh_page\<lparr>gtag := Some DataLayerPush\<rparr>"

text \<open>A server-side rendering pass: no \<open>window\<close>, no \<open>document\<close>.\<close>

definition server_side :: world where
  "server_side = fresh_page\<lparr>is_browser := False, location_href := [], document_title := []\<rparr>"

definition shirt :: EcommerceItem where
  "shirt =
     \<lparr>item_id = ''SKU123'', item_name = ''Shirt'', price = 2999 / 100, quantity = Absent,
      other_fields = [(''item_brand'', PStr ''Acme'')]\<rparr>"

definition no_tracking_options :: EcommerceTrackingOptions where
  "no_tracking_options =
     \<lparr>options_transactionId = None, affiliation = None, coupon = None, shipping = None,
      currency_code = None, tax = None, options_customParams = None\<rparr>"

definition no_page_options :: PageViewOptions where
  "no_page_options = \<lparr>path = None, title = None, referrer = None, pv_customParams = Map.empty\<rparr>"

section \<open>Arithmetic of the rounding\<close>

lemma floor_numeral_div_rat [simp]:
  "\<lfloor>(numeral a :: rat) / numeral b\<rfloor> = numeral a div numeral b"
  using floor_divide_of_int_eq [of "numeral a" "numeral b", where ?'a = rat] by simp

lemma floor_neg_numeral_div_rat [simp]:
  "\<lfloor>- (numeral a :: rat) / numeral b\<rfloor> = - numeral a div numeral b"
  using floor_divide_of_int_eq [of "- numeral a" "numeral b", where ?'a = rat] by simp

lemma floor_half_rat [simp]: "\<lfloor>(1::rat) / 2\<rfloor> = 0"
  by (rule floor_unique) simp_all

lemma toFixed2_25_5 [simp]: "toFixed2 (51 / 2) = 51 / 2"
  by (simp add: toFixed2_def)

lemma toFixed2_nonneg:
  assumes "0 \<le> x"
  shows "rounded_2dp x (toFixed2 x)"
proof -
  define n where "n = \<lfloor>x * 100 + 1 / 2\<rfloor>"
  have y: "toFixed2 x = of_int n / 100"
    using assms by (simp add: toFixed2_def n_def)
  have lo: "of_int n \<le> x * 100 + 1 / 2" unfolding n_def by (rule of_int_floor_le)
  have hi: "x * 100 + 1 / 2 < of_int n + 1"
    unfolding n_def using floor_correct [of "x * 100 + 1 / 2"] by simp
  have whole: "of_int \<lfloor>toFixed2 x * 100\<rfloor> = toFixed2 x * 100"
    by (simp add: y)
  have d1: "toFixed2 x - x \<le> 1 / 200" using lo by (simp add: y field_simps)
  have d2: "- (1 / 200) < toFixed2 x - x" using hi by (simp add: y field_simps)
  have near: "\<bar>toFixed2 x - x\<bar> \<le> 1 / 200" using d1 d2 by linarith
  have tie: "\<bar>toFixed2 x - x\<bar> = 1 / 200 \<Longrightarrow> \<bar>x\<bar> < \<bar>toFixed2 x\<bar>"
    using d1 d2 assms by linarith
  show ?thesis using whole near tie by (simp add: rounded_2dp_def)
qed

lemma rounded_2dp_minus:
  assumes r: "rounded_2dp x y"
  shows "rounded_2dp (- x) (- y)"
proof -
  from r have w: "of_int \<lfloor>y * 100\<rfloor> = y * 100" unfolding rounded_2dp_def by blast
  have "of_int \<lfloor>- y * 100\<rfloor> = - y * 100"
  proof -
    have "- y * 100 = of_int (- \<lfloor>y * 100\<rfloor>)" by (simp add: w)
    then show ?thesis by (metis floor_of_int)
  qed
  moreover have "\<bar>- y - - x\<bar> = \<bar>y - x\<bar>" by linarith
  ultimately show ?thesis using r by (simp add: rounded_2dp_def)
qed

lemma toFixed2_rounded: "rounded_2dp x (toFixed2 x)"
proof (cases "x < 0")
  case False
  then show ?thesis by (simp add: toFixed2_nonneg)
next
  case True
  then have "toFixed2 x = - toFixed2 (- x)" by (simp add: toFixed2_def)
  moreover have "rounded_2dp (- x) (toFixed2 (- x))" using True by (simp add: toFixed2_nonneg)
  ultimately show ?thesis using rounded_2dp_minus [of "- x" "toFixed2 (- x)"] by simp
qed

section \<open>Facts shared by the proofs\<close>

lemma validateMeasurementId_nonempty: "validateMeasurementId s \<Longrightarrow> s \<noteq> []"
  by (auto simp: validateMeasurementId_def)

lemma dispatch_Inl [simp]: "dispatch ga (Inl e) w = (Inl e, w)"
  by (simp add: dispatch_def)

lemma dispatch_Inr [simp]: "dispatch ga (Inr ev) w = trackEvent ga ev noOptions w"
  by (simp add: dispatch_def)

lemma trackEvent_returns [simp]: "fst (trackEvent ga ev opts w) = Inr ()"
  by (simp add: trackEvent_def Let_def split: option.splits gtag_fn.splits)

lemma trackEvent_ready:
  "ready ga w \<Longrightarrow>
   gtag_calls (snd (trackEvent ga ev opts w))
     = gtag_calls w @ [GtagEvent (event_name ev) (event_parameters ev ++ customParameters opts)]"
  by (simp add: trackEvent_def ready_def Let_def split: option.splits gtag_fn.splits if_splits)

lemma spread_options_none:
  "k \<notin> {''transactionId'', ''affiliation'', ''coupon'', ''shipping'', ''currency'', ''tax'',
         ''customParams''}
   \<Longrightarrow> spread_options opts k = None"
  by (simp add: spread_options_def opt_key_def map_add_def split: option.splits)

lemma spread_options_items [simp]: "spread_options opts ''items'' = None"
  by (simp add: spread_options_none)

lemma spread_options_value [simp]: "spread_options opts ''value'' = None"
  by (simp add: spread_options_none)

lemma spread_options_transaction_id [simp]: "spread_options opts ''transaction_id'' = None"
  by (simp add: spread_options_none)

lemma ready_tagged [simp]: "ready shop_tracker tagged_page"
  by (simp add: ready_def shop_tracker_def shop_config_def tagged_page_def fresh_page_def
        isGtagAvailable_def isBrowser_def)

lemma warn_debug_gtag_calls [simp]: "gtag_calls (warn_debug ga msg w) = gtag_calls w"
  by (simp add: warn_debug_def)

lemma trim_empty_iff: "trim s = [] \<longleftrightarrow> list_all isWhiteSpace s"
proof
  assume "trim s = []"
  then have "dropWhile isWhiteSpace (rev (dropWhile isWhiteSpace s)) = []"
    by (simp add: trim_def)
  then have all: "\<forall>x \<in> set (dropWhile isWhiteSpace s). isWhiteSpace x"
    by (simp add: dropWhile_eq_Nil_conv)
  have "dropWhile isWhiteSpace s = []"
  proof (rule ccontr)
    assume ne: "dropWhile isWhiteSpace s \<noteq> []"
    then have "\<not> isWhiteSpace (hd (dropWhile isWhiteSpace s))"
      by (rule hd_dropWhile)
    moreover have "hd (dropWhile isWhiteSpace s) \<in> set (dropWhile isWhiteSpace s)"
      using ne by simp
    ultimately show False using all by blast
  qed
  then show "list_all isWhiteSpace s"
    by (simp add: dropWhile_eq_Nil_conv list_all_iff)
next
  assume "list_all isWhiteSpace s"
  then have d: "dropWhile isWhiteSpace s = []"
    by (simp add: dropWhile_eq_Nil_conv list_all_iff)
  show "trim s = []" unfolding trim_def d by simp
qed

lemma trackPage_skips:
  assumes "path options = None \<and> (isBrowser w = False \<or> location_href w = [])"
  shows "trackPage ga options w
           = (Inr (), warn_debug ga ''GA4: Cannot track page view without path'' w)"
proof -
  from assms have "trackPage_event options w = None"
    by (auto simp: trackPage_event_def)
  then show ?thesis by (simp add: trackPage_def)
qed

lemma trackSearch_skips:
  assumes "list_all isWhiteSpace s"
  shows "trackSearch ga s opts w = (Inr (), warn_debug ga ''GA4: Search term is required'' w)"
proof -
  from assms have "trackSearch_event s opts w = None"
    by (simp add: trackSearch_event_def trim_empty_iff)
  then show ?thesis by (simp add: trackSearch_def)
qed

lemma trackSearch_builds:
  assumes "list_all isWhiteSpace s = False"
  shows "trackSearch_event s opts w
      = Some (buildEvent ''search'' ([''search_term'' \<mapsto> JStr (trim s)] ++ opts) ENGAGEMENT w)"
  using assms by (simp add: trackSearch_event_def trim_empty_iff)

lemma mapItem_normalised: "normalised item (mapItem item)"
  by (cases "quantity item")
     (simp_all add: normalised_def mapItem_def toFixed2_rounded at_least_one_def)

lemma list_all2_mapItem: "list_all2 normalised items (map mapItem items)"
  by (induction items) (simp_all add: mapItem_normalised)

lemma items_of_buildEvent [simp]:
  "items_of (buildEvent name params category w)
     = (case params ''items'' of Some (JItems xs) \<Rightarrow> xs | _ \<Rightarrow> [])"
  by (simp add: items_of_def buildEvent_def)

lemma trackItem_items:
  "trackItem_event cfg action items l1 l2 v cp w = Inr ev \<Longrightarrow> cp ''items'' = None
   \<Longrightarrow> items_of ev = map mapItem items"
  by (auto simp: trackItem_event_def map_add_def Let_def split: if_splits sum.splits)

lemma trackCart_items:
  "trackCart_event cfg action items v cp w = Inr ev \<Longrightarrow> cp ''items'' = None
   \<Longrightarrow> items_of ev = map mapItem items"
  by (auto simp: trackCart_event_def map_add_def split: if_splits sum.splits option.splits)

lemma trackWishlist_items:
  "trackWishlist_event cfg action items v cp w = Inr ev \<Longrightarrow> cp ''items'' = None
   \<Longrightarrow> items_of ev = map mapItem items"
  by (auto simp: trackWishlist_event_def map_add_def split: if_splits sum.splits option.splits)

lemma trackShippingInfo_items:
  "trackShippingInfo_event cfg items v tier cp w = Inr ev \<Longrightarrow> cp ''items'' = None
   \<Longrightarrow> items_of ev = map mapItem items"
  by (auto simp: trackShippingInfo_event_def map_add_def split: if_splits option.splits)

lemma trackPaymentInfo_items:
  "trackPaymentInfo_event cfg items v ptype cp w = Inr ev \<Longrightarrow> cp ''items'' = None
   \<Longrightarrow> items_of ev = map mapItem items"
  by (auto simp: trackPaymentInfo_event_def map_add_def split: if_splits option.splits)

lemma trackPurchase_items:
  "trackPurchase_event cfg tid v items opts w = Inr ev \<Longrightarrow> items_of ev = map mapItem items"
  by (auto simp: trackPurchase_event_def map_add_def split: if_splits)

lemma trackRefund_items:
  "trackRefund_event cfg tid v items opts w = Inr ev \<Longrightarrow> items_of ev = map mapItem items"
  by (auto simp: trackRefund_event_def map_add_def split: if_splits)

lemma trackPromotion_items:
  "trackPromotion_event cfg action items cn cs pid pname cp w = Inr ev \<Longrightarrow> cp ''items'' = None
   \<Longrightarrow> items_of ev = map mapItem items"
  by (auto simp: trackPromotion_event_def map_add_def split: if_splits sum.splits)

section \<open>Construction\<close>

text \<open>
  Claim C2. Constructing the runtime with an empty \<open>measurementId\<close> and \<open>disableGA\<close>
  false raises the configuration error. For every configuration whose measurement id has
  the shape \<open>G-\<close> and ten capitals or digits, and for every configuration with
  \<open>disableGA\<close> true whatever its measurement id, construction succeeds, keeps the
  configuration and starts in the state \<open>NOT_INITIALIZED\<close>.
\<close>

theorem construction_checks_measurement_id:
  "(measurementId c1 = [] \<and> disableGA c1 = False
      \<longrightarrow> constructor c1 = Inl (Error ''GA4 measurementId is required''))
   \<and> (validateMeasurementId (measurementId c2) \<or> disableGA c2
      \<longrightarrow> (\<exists>ga. constructor c2 = Inr ga \<and> config ga = c2
                \<and> getInitializationState ga = NOT_INITIALIZED))"
  using validateMeasurementId_nonempty [of "measurementId c2"]
  by (auto simp: constructor_def validateConfig_def getInitializationState_def)

theorem construction_checks_measurement_id_witness:
  "(measurementId (shop_config\<lparr>measurementId := []\<rparr>) = []
    \<and> disableGA (shop_config\<lparr>measurementId := []\<rparr>) = False)
   \<and> constructor (shop_config\<lparr>measurementId := []\<rparr>)
       = Inl (Error ''GA4 measurementId is required'')
   \<and> validateMeasurementId (measurementId shop_config)
   \<and> (\<exists>ga. constructor shop_config = Inr ga \<and> config ga = shop_config
            \<and> getInitializationState ga = NOT_INITIALIZED)
   \<and> disableGA (shop_config\<lparr>measurementId := [], disableGA := True\<rparr>)
   \<and> (\<exists>ga. constructor (shop_config\<lparr>measurementId := [], disableGA := True\<rparr>) = Inr ga
            \<and> getInitializationState ga = NOT_INITIALIZED)"
proof -
  have h1: "measurementId (shop_config\<lparr>measurementId := []\<rparr>) = []
            \<and> disableGA (shop_config\<lparr>measurementId := []\<rparr>) = False"
    by (simp add: shop_config_def)
  have h2: "validateMeasurementId (measurementId shop_config)"
    by (simp add: shop_config_def validateMeasurementId_def)
  have h3: "disableGA (shop_config\<lparr>measurementId := [], disableGA := True\<rparr>)"
    by simp
  from construction_checks_measurement_id
         [of "shop_config\<lparr>measurementId := []\<rparr>" shop_config]
       construction_checks_measurement_id
         [of "shop_config\<lparr>measurementId := []\<rparr>"
             "shop_config\<lparr>measurementId := [], disableGA := True\<rparr>"]
       h1 h2 h3
  show ?thesis by blast
qed

section \<open>Dispatch\<close>

text \<open>
  Claim C3. For every event and every options bag: when \<open>disableGA\<close> is true,
  \<open>trackEvent\<close> returns normally and leaves the environment as it was, and
  \<open>isInitialized\<close> is true in every environment; when the reporting function is not
  available, \<open>trackEvent\<close> returns normally, the reporting function has not been invoked
  and no callback has been queued: the one thing it does is the console warning.
\<close>

theorem dispatch_never_breaks_caller:
  "(disableGA (config ga) \<longrightarrow>
      trackEvent ga event options w = (Inr (), w) \<and> isInitialized ga w)
   \<and> (isGtagAvailable w' = False \<longrightarrow>
        fst (trackEvent ga' event' options' w') = Inr ()
        \<and> gtag_calls (snd (trackEvent ga' event' options' w')) = gtag_calls w'
        \<and> (disableGA (config ga') = False \<longrightarrow>
             snd (trackEvent ga' event' options' w')
               = w'\<lparr>console := console w' @ [''GA4: gtag not available'']\<rparr>))"
  by (simp add: trackEvent_def isInitialized_def)

theorem dispatch_never_breaks_caller_witness:
  "disableGA (config (shop_tracker\<lparr>config := shop_config\<lparr>disableGA := True\<rparr>\<rparr>))
   \<and> trackEvent (shop_tracker\<lparr>config := shop_config\<lparr>disableGA := True\<rparr>\<rparr>)
        (buildEvent ''purchase'' Map.empty ECOMMERCE tagged_page) noOptions tagged_page
       = (Inr (), tagged_page)
   \<and> isInitialized (shop_tracker\<lparr>config := shop_config\<lparr>disableGA := True\<rparr>\<rparr>) tagged_page
   \<and> isGtagAvailable fresh_page = False
   \<and> disableGA (config shop_tracker) = False
   \<and> fst (trackEvent shop_tracker (buildEvent ''purchase'' Map.empty ECOMMERCE fresh_page)
            noOptions fresh_page) = Inr ()
   \<and> gtag_calls (snd (trackEvent shop_tracker
                        (buildEvent ''purchase'' Map.empty ECOMMERCE fresh_page)
                        noOptions fresh_page)) = gtag_calls fresh_page
   \<and> snd (trackEvent shop_tracker (buildEvent ''purchase'' Map.empty ECOMMERCE fresh_page)
            noOptions fresh_page)
       = fresh_page\<lparr>console := console fresh_page @ [''GA4: gtag not available'']\<rparr>"
proof -
  have h1: "disableGA (config (shop_tracker\<lparr>config := shop_config\<lparr>disableGA := True\<rparr>\<rparr>))"
    by simp
  have h2: "isGtagAvailable fresh_page = False"
    by (simp add: isGtagAvailable_def isBrowser_def fresh_page_def)
  have h3: "disableGA (config shop_tracker) = False"
    by (simp add: shop_tracker_def shop_config_def)
  from dispatch_never_breaks_caller
         [of "shop_tracker\<lparr>config := shop_config\<lparr>disableGA := True\<rparr>\<rparr>"
             "buildEvent ''purchase'' Map.empty ECOMMERCE tagged_page" noOptions tagged_page
             fresh_page shop_tracker "buildEvent ''purchase'' Map.empty ECOMMERCE fresh_page"
             noOptions]
       h1 h2 h3
  show ?thesis by blast
qed

section \<open>Required fields of the e-commerce builders\<close>

text \<open>
  Claim C6. For every action, the members of the enumeration and any other string alike,
  \<open>trackCart\<close>, \<open>trackWishlist\<close> (with positional arguments and with one object),
  \<open>trackShippingInfo\<close> and \<open>trackPaymentInfo\<close> raise the error of the empty item list
  when the list is empty, whatever the value and the custom parameters are, and the
  environment is as before: nothing has been handed to \<open>trackEvent\<close>.
\<close>

theorem empty_items_raise:
  "trackCart ga ca [] v1 cp1 w
     = (Inl (Error (''GA4: Cannot track '' @ CartType_str ca @ '' with empty items'')), w)
   \<and> trackWishlist ga wa [] v2 cp2 w
     = (Inl (Error (''GA4: Cannot track '' @ WishlistType_str wa @ '' with empty items'')), w)
   \<and> trackWishlist_obj ga wa [] v2 cp2 w
     = (Inl (Error (''GA4: Cannot track '' @ WishlistType_str wa @ '' with empty items'')), w)
   \<and> trackShippingInfo ga [] v3 tier cp3 w
     = (Inl (Error ''GA4: Cannot track shipping info with empty items''), w)
   \<and> trackPaymentInfo ga [] v4 ptype cp4 w
     = (Inl (Error ''GA4: Cannot track payment info with empty items''), w)"
  by (simp add: trackCart_def trackCart_event_def trackWishlist_def trackWishlist_event_def
        trackWishlist_obj_def trackWishlist_obj_event_def trackShippingInfo_def
        trackShippingInfo_event_def trackPaymentInfo_def trackPaymentInfo_event_def)

text \<open>
  Claim C5. \<open>trackPurchase\<close>, in each of the three revisions of the class, raises when
  the transaction id is the empty string or the value is at most zero, and the
  environment is as before. With the id \<open>ORDER_1\<close>, the value 25.5 and one item, whatever
  the item and the options, it builds an event named \<open>purchase\<close> whose parameters hold
  \<open>transaction_id = ORDER_1\<close> and \<open>value = 25.5\<close>, and hands it to \<open>trackEvent\<close>.
\<close>

theorem purchase_guard_and_event:
  "(transactionId = [] \<or> value \<le> 0 \<longrightarrow>
      trackPurchase ga transactionId value items opts w
        = (Inl (Error ''GA4: Invalid purchase parameters''), w)
      \<and> trackPurchase_obj ga transactionId value items opts w
        = (Inl (Error ''GA4: Invalid purchase parameters''), w)
      \<and> trackPurchase_old ga transactionId value items opts w
        = (Inl (Error ''GA4: Invalid purchase parameters''), w))
   \<and> (\<exists>ev. trackPurchase_event (config ga') ''ORDER_1'' (51 / 2) [item] opts' w' = Inr ev
          \<and> trackPurchase ga' ''ORDER_1'' (51 / 2) [item] opts' w' = trackEvent ga' ev noOptions w'
          \<and> purchase_event_of ''ORDER_1'' (51 / 2) ev)
   \<and> (\<exists>ev. trackPurchase_obj_event (config ga') ''ORDER_1'' (51 / 2) [item] opts' = Inr ev
          \<and> trackPurchase_obj ga' ''ORDER_1'' (51 / 2) [item] opts' w'
              = trackEvent ga' ev noOptions w'
          \<and> purchase_event_of ''ORDER_1'' (51 / 2) ev)
   \<and> (\<exists>ev. trackPurchase_old_event (config ga') ''ORDER_1'' (51 / 2) [item] opts' w' = Inr ev
          \<and> trackPurchase_old ga' ''ORDER_1'' (51 / 2) [item] opts' w'
              = trackEvent ga' ev noOptions w'
          \<and> purchase_event_of ''ORDER_1'' (51 / 2) ev)"
  by (simp add: trackPurchase_def trackPurchase_event_def trackPurchase_obj_def
        trackPurchase_obj_event_def trackPurchase_old_def trackPurchase_old_event_def
        purchase_event_of_def buildEvent_def buildEvent_obj_def map_add_def)

theorem purchase_guard_and_event_witness:
  "([] = ([]::string) \<or> (10::rat) \<le> 0)
   \<and> trackPurchase shop_tracker [] 10 [shirt] no_tracking_options tagged_page
       = (Inl (Error ''GA4: Invalid purchase parameters''), tagged_page)
   \<and> (''ORDER_1'' = [] \<or> (0::rat) \<le> 0)
   \<and> trackPurchase shop_tracker ''ORDER_1'' 0 [shirt] no_tracking_options tagged_page
       = (Inl (Error ''GA4: Invalid purchase parameters''), tagged_page)
   \<and> (\<exists>ev. trackPurchase_event (config shop_tracker) ''ORDER_1'' (51 / 2) [shirt]
             no_tracking_options tagged_page = Inr ev
          \<and> trackPurchase shop_tracker ''ORDER_1'' (51 / 2) [shirt] no_tracking_options
               tagged_page = trackEvent shop_tracker ev noOptions tagged_page
          \<and> purchase_event_of ''ORDER_1'' (51 / 2) ev)"
proof -
  have h1: "[] = ([]::string) \<or> (10::rat) \<le> 0" by simp
  have h2: "''ORDER_1'' = [] \<or> (0::rat) \<le> 0" by simp
  from purchase_guard_and_event
         [of "[]" 10 shop_tracker "[shirt]" no_tracking_options tagged_page shop_tracker shirt
             no_tracking_options tagged_page]
       purchase_guard_and_event
         [of "''ORDER_1''" 0 shop_tracker "[shirt]" no_tracking_options tagged_page
             shop_tracker shirt no_tracking_options tagged_page]
       h1 h2
  show ?thesis by blast
qed

text \<open>
  Claim C10. \<open>trackPurchase\<close> asks nothing of the item list. With a transaction id that is
  not empty, a value above zero and no items it does not raise: it builds a \<open>purchase\<close>
  event and hands it to \<open>trackEvent\<close>, which reports it when the channel is ready. In the
  revisions with positional arguments and with one object the \<open>items\<close> parameter is the
  empty list; in the earliest revision the parameters have no \<open>items\<close> key. The cart,
  wishlist, shipping and payment builders raise on the same empty list.
\<close>

theorem purchase_accepts_empty_items:
  assumes ok: "transactionId \<noteq> [] \<and> 0 < value"
  shows
    "(\<exists>ev. trackPurchase_event (config ga) transactionId value [] opts w = Inr ev
          \<and> trackPurchase ga transactionId value [] opts w = trackEvent ga ev noOptions w
          \<and> event_name ev = ''purchase''
          \<and> event_parameters ev ''items'' = Some (JItems [])
          \<and> (ready ga w \<longrightarrow>
                gtag_calls (snd (trackPurchase ga transactionId value [] opts w))
                  = gtag_calls w @ [GtagEvent ''purchase'' (event_parameters ev)]))
     \<and> (\<exists>ev. trackPurchase_obj_event (config ga) transactionId value [] opts = Inr ev
          \<and> trackPurchase_obj ga transactionId value [] opts w = trackEvent ga ev noOptions w
          \<and> event_name ev = ''purchase''
          \<and> event_parameters ev ''items'' = Some (JItems [])
          \<and> (ready ga w \<longrightarrow>
                gtag_calls (snd (trackPurchase_obj ga transactionId value [] opts w))
                  = gtag_calls w @ [GtagEvent ''purchase'' (event_parameters ev)]))
     \<and> (\<exists>ev. trackPurchase_old_event (config ga) transactionId value [] opts w = Inr ev
          \<and> trackPurchase_old ga transactionId value [] opts w = trackEvent ga ev noOptions w
          \<and> event_name ev = ''purchase''
          \<and> event_parameters ev ''items'' = None
          \<and> (ready ga w \<longrightarrow>
                gtag_calls (snd (trackPurchase_old ga transactionId value [] opts w))
                  = gtag_calls w @ [GtagEvent ''purchase'' (event_parameters ev)]))
     \<and> fst (trackPurchase ga transactionId value [] opts w) = Inr ()
     \<and> fst (trackPurchase_obj ga transactionId value [] opts w) = Inr ()
     \<and> fst (trackPurchase_old ga transactionId value [] opts w) = Inr ()
     \<and> isl (fst (trackCart ga ca [] v1 cp w))
     \<and> isl (fst (trackWishlist ga wa [] v1 cp w))
     \<and> isl (fst (trackShippingInfo ga [] v1 tier cp w))
     \<and> isl (fst (trackPaymentInfo ga [] v1 ptype cp w))"
proof -
  have a: "trackPurchase_event (config ga) transactionId value [] opts w
             = Inr (buildEvent ''purchase''
                 ([''transaction_id'' \<mapsto> JStr transactionId,
                   ''currency'' \<mapsto> config_currency (config ga),
                   ''value'' \<mapsto> JNum (toFixed2 value), ''items'' \<mapsto> JItems []]
                  ++ spread_options opts) ECOMMERCE w)"
    using ok by (simp add: trackPurchase_event_def)
  have b: "trackPurchase_obj_event (config ga) transactionId value [] opts
             = Inr (buildEvent_obj ''purchase''
                 ([''transaction_id'' \<mapsto> JStr transactionId,
                   ''currency'' \<mapsto> config_currency (config ga),
                   ''value'' \<mapsto> JNum (toFixed2 value), ''items'' \<mapsto> JItems []]
                  ++ spread_options opts) ECOMMERCE)"
    using ok by (simp add: trackPurchase_obj_event_def)
  have c: "trackPurchase_old_event (config ga) transactionId value [] opts w
             = Inr (buildEvent ''purchase''
                 ([''transaction_id'' \<mapsto> JStr transactionId,
                   ''value'' \<mapsto> JNum (toFixed2 value),
                   ''currency'' \<mapsto> config_currency (config ga)]
                  ++ spread_options opts) ECOMMERCE w)"
    using ok by (simp add: trackPurchase_old_event_def)
  have raise: "isl (fst (trackCart ga ca [] v1 cp w))"
      "isl (fst (trackWishlist ga wa [] v1 cp w))"
      "isl (fst (trackShippingInfo ga [] v1 tier cp w))"
      "isl (fst (trackPaymentInfo ga [] v1 ptype cp w))"
    by (simp_all add: trackCart_def trackCart_event_def trackWishlist_def
          trackWishlist_event_def trackShippingInfo_def trackShippingInfo_event_def
          trackPaymentInfo_def trackPaymentInfo_event_def)
  show ?thesis
    using raise
    by (simp add: a b c trackPurchase_def trackPurchase_obj_def trackPurchase_old_def
          buildEvent_def buildEvent_obj_def map_add_def trackEvent_ready noOptions_def)
qed

theorem purchase_accepts_empty_items_witness:
  "(''ORDER_1'' \<noteq> [] \<and> (0::rat) < 10)
   \<and> ready shop_tracker tagged_page
   \<and> (\<exists>ev. trackPurchase_event (config shop_tracker) ''ORDER_1'' 10 [] no_tracking_options
             tagged_page = Inr ev
          \<and> event_parameters ev ''items'' = Some (JItems [])
          \<and> gtag_calls (snd (trackPurchase shop_tracker ''ORDER_1'' 10 [] no_tracking_options
                                 tagged_page))
              = gtag_calls tagged_page @ [GtagEvent ''purchase'' (event_parameters ev)])
   \<and> (\<exists>ev. trackPurchase_old_event (config shop_tracker) ''ORDER_1'' 10 []
             no_tracking_options tagged_page = Inr ev
          \<and> event_parameters ev ''items'' = None
          \<and> gtag_calls (snd (trackPurchase_old shop_tracker ''ORDER_1'' 10 []
                                 no_tracking_options tagged_page))
              = gtag_calls tagged_page @ [GtagEvent ''purchase'' (event_parameters ev)])
   \<and> fst (trackPurchase shop_tracker ''ORDER_1'' 10 [] no_tracking_options tagged_page) = Inr ()"
proof -
  have h: "''ORDER_1'' \<noteq> [] \<and> (0::rat) < 10" by simp
  have r: "ready shop_tracker tagged_page" by (rule ready_tagged)
  from purchase_accepts_empty_items
         [OF h, of shop_tracker no_tracking_options tagged_page] h r
  show ?thesis by blast
qed

text \<open>
  Claim C7. The builder \<open>trackWishlist\<close> with positional arguments guards the value with
  \<open>!value\<close>, as \<open>trackCart\<close> does, and so raises on the value 0 with items at hand; the
  builder with one object guards it with \<open>value == null\<close> and reports the event with
  \<open>value = 0\<close>. At one input: the positional \<open>trackWishlist\<close> raises, the object one
  reports \<open>add_to_wishlist\<close> with value 0, and \<open>trackCart\<close> raises.
\<close>

theorem wishlist_zero_value_positional_raises:
  "trackWishlist shop_tracker ADD_TO_WISHLIST [shirt] (Some 0) Map.empty tagged_page
     = (Inl (Error ''GA4: Cannot track add_to_wishlist without value''), tagged_page)
   \<and> fst (trackWishlist_obj shop_tracker ADD_TO_WISHLIST [shirt] (Some 0) Map.empty tagged_page)
       = Inr ()
   \<and> reported ''value''
        (snd (trackWishlist_obj shop_tracker ADD_TO_WISHLIST [shirt] (Some 0) Map.empty
                tagged_page))
       = [(''add_to_wishlist'', Some (JNum 0))]
   \<and> trackCart shop_tracker ADD_TO_CART [shirt] (Some 0) Map.empty tagged_page
     = (Inl (Error ''GA4: Cannot track add_to_cart without value''), tagged_page)"
  by (simp add: trackWishlist_def trackWishlist_event_def trackWishlist_obj_def
        trackWishlist_obj_event_def trackCart_def trackCart_event_def shirt_def
        trackEvent_def shop_tracker_def shop_config_def tagged_page_def fresh_page_def
        isGtagAvailable_def isBrowser_def buildEvent_obj_def noOptions_def toFixed2_def
        reported_def)

text \<open>
  The same in general: with items at hand the object builder raises exactly when the
  value is missing or the action is none of the enumeration; the positional builder and
  \<open>trackCart\<close> raise on every zero value.
\<close>

lemma wishlist_obj_raises_iff:
  "isl (trackWishlist_obj_event cfg action items value cp)
     \<longleftrightarrow> items = [] \<or> value = None \<or> isl (WishlistType_eventName action)"
  by (simp add: trackWishlist_obj_event_def split: option.splits sum.splits)

lemma wishlist_rejects_zero:
  "items \<noteq> [] \<Longrightarrow>
   trackWishlist ga action items (Some 0) cp w
     = (Inl (Error (''GA4: Cannot track '' @ WishlistType_str action @ '' without value'')), w)"
  by (simp add: trackWishlist_def trackWishlist_event_def)

lemma cart_rejects_zero:
  "items \<noteq> [] \<Longrightarrow>
   trackCart ga action items (Some 0) cp w
     = (Inl (Error (''GA4: Cannot track '' @ CartType_str action @ '' without value'')), w)"
  by (simp add: trackCart_def trackCart_event_def)

section \<open>Builders that skip in silence\<close>

text \<open>
  Claim C8, as amended. \<open>trackPage\<close> with no path of its own and no path to take from
  the environment (no browser, or an empty location) returns normally without calling the
  reporting function; so does \<open>trackSearch\<close> with a search term that is empty or all
  white space. With any other term \<open>trackSearch\<close> builds a \<open>search\<close> event, hands it to
  \<open>trackEvent\<close> and returns normally; the event's \<open>search_term\<close> is the trimmed term
  unless the options carry a \<open>search_term\<close> of their own, which is spread after it and
  replaces it. A ready channel is called with that event.
\<close>

theorem silent_skips:
  "(path options = None \<and> (isBrowser w = False \<or> location_href w = []) \<longrightarrow>
      trackPage ga options w
        = (Inr (), warn_debug ga ''GA4: Cannot track page view without path'' w)
      \<and> gtag_calls (snd (trackPage ga options w)) = gtag_calls w)
   \<and> (list_all isWhiteSpace s \<longrightarrow>
        trackSearch ga1 s opts w1
          = (Inr (), warn_debug ga1 ''GA4: Search term is required'' w1)
        \<and> gtag_calls (snd (trackSearch ga1 s opts w1)) = gtag_calls w1)
   \<and> (list_all isWhiteSpace s2 = False \<longrightarrow>
        (\<exists>ev. trackSearch_event s2 opts2 w2 = Some ev
           \<and> trackSearch ga2 s2 opts2 w2 = trackEvent ga2 ev noOptions w2
           \<and> fst (trackSearch ga2 s2 opts2 w2) = Inr ()
           \<and> event_name ev = ''search''
           \<and> event_parameters ev ''search_term''
               = (case opts2 ''search_term'' of
                    None \<Rightarrow> Some (JStr (trim s2))
                  | Some v \<Rightarrow> Some v)
           \<and> (ready ga2 w2 \<longrightarrow>
                 gtag_calls (snd (trackSearch ga2 s2 opts2 w2))
                   = gtag_calls w2 @ [GtagEvent ''search'' (event_parameters ev)])))"
proof -
  have p1: "path options = None \<and> (isBrowser w = False \<or> location_href w = []) \<longrightarrow>
      trackPage ga options w
        = (Inr (), warn_debug ga ''GA4: Cannot track page view without path'' w)
      \<and> gtag_calls (snd (trackPage ga options w)) = gtag_calls w"
    by (simp add: trackPage_skips)
  have p2: "list_all isWhiteSpace s \<longrightarrow>
        trackSearch ga1 s opts w1
          = (Inr (), warn_debug ga1 ''GA4: Search term is required'' w1)
        \<and> gtag_calls (snd (trackSearch ga1 s opts w1)) = gtag_calls w1"
    by (simp add: trackSearch_skips)
  have p3: "list_all isWhiteSpace s2 = False \<longrightarrow>
        (\<exists>ev. trackSearch_event s2 opts2 w2 = Some ev
           \<and> trackSearch ga2 s2 opts2 w2 = trackEvent ga2 ev noOptions w2
           \<and> fst (trackSearch ga2 s2 opts2 w2) = Inr ()
           \<and> event_name ev = ''search''
           \<and> event_parameters ev ''search_term''
               = (case opts2 ''search_term'' of
                    None \<Rightarrow> Some (JStr (trim s2))
                  | Some v \<Rightarrow> Some v)
           \<and> (ready ga2 w2 \<longrightarrow>
                 gtag_calls (snd (trackSearch ga2 s2 opts2 w2))
                   = gtag_calls w2 @ [GtagEvent ''search'' (event_parameters ev)]))"
    by (simp add: trackSearch_builds trackSearch_def buildEvent_def map_add_def
          trackEvent_ready noOptions_def split: option.splits)
  from p1 p2 p3 show ?thesis by blast
qed


theorem silent_skips_witness:
  "(path no_page_options = None
      \<and> (isBrowser server_side = False \<or> location_href server_side = []))
   \<and> trackPage shop_tracker no_page_options server_side = (Inr (), server_side)
   \<and> list_all isWhiteSpace [CHR 0x20, CHR 0x09]
   \<and> trackSearch shop_tracker [CHR 0x20, CHR 0x09] Map.empty tagged_page = (Inr (), tagged_page)
   \<and> list_all isWhiteSpace '' red shoes '' = False
   \<and> ready shop_tracker tagged_page
   \<and> reported ''search_term'' (snd (trackSearch shop_tracker '' red shoes '' Map.empty tagged_page))
       = [(''search'', Some (JStr ''red shoes''))]"
proof -
  have h1: "path no_page_options = None
      \<and> (isBrowser server_side = False \<or> location_href server_side = [])"
    by (simp add: no_page_options_def server_side_def isBrowser_def)
  have h2: "list_all isWhiteSpace [CHR 0x20, CHR 0x09]"
    by (simp add: isWhiteSpace_def)
  have h3: "list_all isWhiteSpace '' red shoes '' = False"
    by (simp add: isWhiteSpace_def)
  have r: "ready shop_tracker tagged_page" by (rule ready_tagged)
  have quiet: "warn_debug shop_tracker msg w = w" for msg w
    by (simp add: warn_debug_def shop_tracker_def shop_config_def)
  have tr: "trim '' red shoes '' = ''red shoes''"
    by (simp add: trim_def isWhiteSpace_def)
  note t = silent_skips [of no_page_options server_side shop_tracker "[CHR 0x20, CHR 0x09]"
       shop_tracker Map.empty tagged_page "'' red shoes ''" Map.empty tagged_page shop_tracker]
  from t h1
  have "trackPage shop_tracker no_page_options server_side
          = (Inr (), warn_debug shop_tracker ''GA4: Cannot track page view without path''
                       server_side)"
    by blast
  then have c1: "trackPage shop_tracker no_page_options server_side = (Inr (), server_side)"
    by (simp add: quiet)
  from t h2
  have "trackSearch shop_tracker [CHR 0x20, CHR 0x09] Map.empty tagged_page
          = (Inr (), warn_debug shop_tracker ''GA4: Search term is required'' tagged_page)"
    by blast
  then have c2: "trackSearch shop_tracker [CHR 0x20, CHR 0x09] Map.empty tagged_page
              = (Inr (), tagged_page)"
    by (simp add: quiet)
  from t h3 obtain ev :: GAEvent where
    e0: "event_parameters ev ''search_term''
           = (case (Map.empty :: TEventParams) ''search_term'' of
                None \<Rightarrow> Some (JStr (trim '' red shoes ''))
              | Some v \<Rightarrow> Some v)" and
    e3: "ready shop_tracker tagged_page \<longrightarrow>
           gtag_calls (snd (trackSearch shop_tracker '' red shoes '' Map.empty tagged_page))
             = gtag_calls tagged_page @ [GtagEvent ''search'' (event_parameters ev)]"
    by blast
  from e0 have e1: "event_parameters ev ''search_term'' = Some (JStr (trim '' red shoes ''))"
    by simp
  from e3 r
  have e2: "gtag_calls (snd (trackSearch shop_tracker '' red shoes '' Map.empty tagged_page))
           = gtag_calls tagged_page @ [GtagEvent ''search'' (event_parameters ev)]"
    by blast
  have none_yet: "gtag_calls tagged_page = []"
    by (simp add: tagged_page_def fresh_page_def)
  have c3: "reported ''search_term''
              (snd (trackSearch shop_tracker '' red shoes '' Map.empty tagged_page))
            = [(''search'', Some (JStr ''red shoes''))]"
    by (simp add: reported_def e2 e1 tr none_yet)
  from h1 h2 h3 r c1 c2 c3 show ?thesis by blast
qed

text \<open>
  The claim as written has the \<open>search_term\<close> parameter be the trimmed input for every
  call with a term that is not empty: the term \<open>shoes\<close> with the options
  \<open>{search_term: "boots"}\<close> is reported with \<open>boots\<close>.
\<close>

theorem search_term_overridden:
  "trim ''shoes'' = ''shoes''
   \<and> reported ''search_term''
        (snd (trackSearch shop_tracker ''shoes'' [''search_term'' \<mapsto> JStr ''boots'']
                tagged_page))
       = [(''search'', Some (JStr ''boots''))]"
  by (simp add: trim_def isWhiteSpace_def reported_def trackSearch_def trackSearch_event_def
        trackEvent_def buildEvent_def noOptions_def shop_tracker_def shop_config_def
        tagged_page_def fresh_page_def isGtagAvailable_def isBrowser_def)

section \<open>Normalisation of the items\<close>

text \<open>
  Claim C4, as amended. Let one of the eight builders with positional arguments
  (\<open>trackItem\<close>, \<open>trackCart\<close>, \<open>trackWishlist\<close>, \<open>trackShippingInfo\<close>,
  \<open>trackPaymentInfo\<close>, \<open>trackPurchase\<close>, \<open>trackRefund\<close>, \<open>trackPromotion\<close>) build an
  event from a list of items, the custom parameters having no \<open>items\<close> of their own.
  Then the event's \<open>items\<close> holds one item for each input item, in order, and each is
  \<open>normalised\<close>: its price is the input's price rounded to two decimal places, a half
  going away from zero; its quantity is 1 when the input has no quantity and is the
  input's quantity when that is a number other than zero, so it is at least 1 when the
  input's quantity is missing or at least 1; its other properties are the input's.
\<close>

theorem items_are_normalised:
  assumes built:
    "trackItem_event cfg ia items l1 l2 v1 cp w = Inr ev
     \<or> trackCart_event cfg ca items v2 cp w = Inr ev
     \<or> trackWishlist_event cfg wa items v3 cp w = Inr ev
     \<or> trackShippingInfo_event cfg items v4 tier cp w = Inr ev
     \<or> trackPaymentInfo_event cfg items v5 ptype cp w = Inr ev
     \<or> trackPurchase_event cfg tid1 v6 items opts1 w = Inr ev
     \<or> trackRefund_event cfg tid2 v7 items opts2 w = Inr ev
     \<or> trackPromotion_event cfg pa items cn cs pid pname cp w = Inr ev"
    and own: "cp ''items'' = None"
  shows "list_all2 normalised items (items_of ev)"
proof -
  from built own have "items_of ev = map mapItem items"
    using trackItem_items trackCart_items trackWishlist_items trackShippingInfo_items
      trackPaymentInfo_items trackPurchase_items trackRefund_items trackPromotion_items
    by metis
  then show ?thesis by (simp add: list_all2_mapItem)
qed


theorem items_are_normalised_witness:
  "trackCart_event shop_config ADD_TO_CART [shirt, shirt\<lparr>price := 9999 / 1000, quantity := Present 3\<rparr>]
      (Some 40) Map.empty tagged_page
     = Inr (buildEvent ''add_to_cart''
              [''currency'' \<mapsto> JStr ''USD'', ''value'' \<mapsto> JNum 40,
               ''items'' \<mapsto> JItems [shirt\<lparr>quantity := Present 1\<rparr>,
                                   shirt\<lparr>price := 10, quantity := Present 3\<rparr>]]
              ECOMMERCE tagged_page)
   \<and> (Map.empty :: TEventParams) ''items'' = None
   \<and> list_all2 normalised [shirt, shirt\<lparr>price := 9999 / 1000, quantity := Present 3\<rparr>]
        (items_of (buildEvent ''add_to_cart''
              [''currency'' \<mapsto> JStr ''USD'', ''value'' \<mapsto> JNum 40,
               ''items'' \<mapsto> JItems [shirt\<lparr>quantity := Present 1\<rparr>,
                                   shirt\<lparr>price := 10, quantity := Present 3\<rparr>]]
              ECOMMERCE tagged_page))"
proof -
  have h1: "trackCart_event shop_config ADD_TO_CART
               [shirt, shirt\<lparr>price := 9999 / 1000, quantity := Present 3\<rparr>]
               (Some 40) Map.empty tagged_page
     = Inr (buildEvent ''add_to_cart''
              [''currency'' \<mapsto> JStr ''USD'', ''value'' \<mapsto> JNum 40,
               ''items'' \<mapsto> JItems [shirt\<lparr>quantity := Present 1\<rparr>,
                                   shirt\<lparr>price := 10, quantity := Present 3\<rparr>]]
              ECOMMERCE tagged_page)"
    by (simp add: trackCart_event_def mapItem_def shirt_def shop_config_def config_currency_def
          toFixed2_def)
  have h2: "(Map.empty :: TEventParams) ''items'' = None" by simp
  from items_are_normalised [OF disjI2 [OF disjI1 [OF h1]] h2] h1 h2
  show ?thesis by blast
qed

text \<open>
  The claim as written has every output quantity at least 1. A quantity of \<open>-2\<close> is
  truthy, so \<open>item.quantity || 1\<close> keeps it, and nothing else looks at it.
\<close>

theorem negative_quantity_passes_through:
  "map quantity
     (built_items (trackCart_event shop_config ADD_TO_CART [shirt\<lparr>quantity := Present (- 2)\<rparr>]
                     (Some 10) Map.empty tagged_page))
     = [Present (- 2)]"
  by (simp add: built_items_def trackCart_event_def mapItem_def shirt_def map_add_def)


text \<open>
  What the amended claim leaves open: \<open>item.quantity || 1\<close> turns a quantity of zero
  into 1, and the spread \<open>...item\<close> that follows it in the object literal puts the zero
  back.
\<close>

lemma mapItem_zero_quantity:
  "quantity item = Present 0 \<Longrightarrow> quantity (mapItem item) = Present 0"
  by (simp add: mapItem_def)

section \<open>Readiness and the initialization state\<close>

lemma isInitialized_when_disabled: "disableGA (config ga) \<Longrightarrow> isInitialized ga w"
  by (simp add: isInitialized_def)

lemma isInitialized_when_gtag_present: "isGtagAvailable w \<Longrightarrow> isInitialized ga w"
  by (simp add: isInitialized_def)

lemma destroy_resets_state: "getInitializationState (destroy ga) = NOT_INITIALIZED"
  by (simp add: destroy_def getInitializationState_def)

text \<open>
  Claim C9. States the runtime reaches in which \<open>isInitialized\<close> is true while
  \<open>getInitializationState\<close> is \<open>NOT_INITIALIZED\<close>: a runtime just constructed with
  \<open>disableGA\<close>; a runtime just constructed on a page where \<open>window.gtag\<close> is already
  there; and a runtime that was initialized (\<open>init\<close>, the script loads, the suspended call
  goes on and sets \<open>INITIALIZED\<close>) and then destroyed, the reporting function staying
  installed.
\<close>

theorem readiness_differs_from_state:
  "(\<exists>ga. constructor (shop_config\<lparr>disableGA := True\<rparr>) = Inr ga
        \<and> isInitialized ga fresh_page
        \<and> getInitializationState ga = NOT_INITIALIZED)
   \<and> (\<exists>ga. constructor shop_config = Inr ga
        \<and> isInitialized ga tagged_page
        \<and> getInitializationState ga = NOT_INITIALIZED)
   \<and> (\<exists>ga0 ga1 w1 ga2.
          constructor shop_config = Inr ga0
        \<and> init ga0 fresh_page = (Awaits (Some 0), ga1, w1)
        \<and> init_resume (awaited (Some 0) (script_onload 0 w1)) ga1 = Some (Inr (), ga2)
        \<and> getInitializationState ga2 = INITIALIZED
        \<and> isInitialized (destroy ga2) (script_onload 0 w1)
        \<and> getInitializationState (destroy ga2) = NOT_INITIALIZED)"
  by (simp add: constructor_def validateConfig_def shop_config_def isInitialized_def
        getInitializationState_def tagged_page_def fresh_page_def isGtagAvailable_def
        isBrowser_def init_def loadGoogleAnalytics_def configureGA_def Let_def awaited_def
        script_onload_def settle_def init_resume_def destroy_def)

section \<open>Calling init again while it is initializing\<close>

text \<open>
  In a browser the first call of \<open>init\<close> installs \<open>window.gtag\<close> before it suspends:
  \<open>configureGA\<close> runs inside the promise's executor. From then on \<open>isInitialized\<close> is
  true, and it is the first thing \<open>init\<close> asks.
\<close>

lemma init_starts_load:
  assumes "disableGA (config ga) = False" and "isGtagAvailable w = False" and "isBrowser w"
    and "initializationState ga = NOT_INITIALIZED \<or> initializationState ga = FAILED"
  shows "\<exists>ga' w'. init ga w = (Awaits (Some (length (promises w))), ga', w')
           \<and> initializationState ga' = INITIALIZING
           \<and> gtagLoadPromise ga' = Some (length (promises w))
           \<and> awaited (Some (length (promises w))) w' = Pending
           \<and> script_tags w' = script_tags w @ [script_src (measurementId (config ga))]
           \<and> isGtagAvailable w'"
  using assms
  by (auto simp: init_def isInitialized_def loadGoogleAnalytics_def configureGA_def Let_def
        awaited_def isGtagAvailable_def isBrowser_def nth_append split: option.splits)

lemma init_when_gtag_present: "isGtagAvailable w \<Longrightarrow> init ga w = (Resolved, ga, w)"
  by (simp add: init_def isInitialized_def)

lemma init_while_initializing_loads_nothing:
  "initializationState ga = INITIALIZING \<Longrightarrow> snd (init ga w) = (ga, w)"
  by (simp add: init_def split: option.splits)

text \<open>
  Outside a browser nothing installs \<open>window.gtag\<close>, and the second call does get the
  stored promise, which the failed executor has rejected.
\<close>

lemma second_init_follows_on_server:
  "(case init shop_tracker server_side of
      (r1, ga1, w1) \<Rightarrow>
        r1 = Awaits (Some 0) \<and> initializationState ga1 = INITIALIZING
        \<and> awaited (Some 0) w1 = Rejected (ReferenceError ''document is not defined'')
        \<and> init ga1 w1 = (Follows 0, ga1, w1))"
  by (simp add: shop_tracker_def shop_config_def isInitialized_def server_side_def
        fresh_page_def isGtagAvailable_def isBrowser_def init_def loadGoogleAnalytics_def
        Let_def awaited_def)

text \<open>
  Claim C1. On a page just opened, \<open>init\<close> is called and suspends with the state
  \<open>INITIALIZING\<close> and the load pending. A second call made then starts no second load
  (there is one script element), but it does not get the pending operation either: it
  returns a promise that is resolved already. When the script then fails to load, the
  first call rejects and the state becomes \<open>FAILED\<close>.
\<close>

theorem second_init_resolves_early:
  "(case init shop_tracker fresh_page of
      (r1, ga1, w1) \<Rightarrow>
        r1 = Awaits (Some 0) \<and> initializationState ga1 = INITIALIZING
        \<and> awaited (Some 0) w1 = Pending
        \<and> (case init ga1 w1 of
             (r2, ga2, w2) \<Rightarrow>
               r2 = Resolved \<and> ga2 = ga1 \<and> w2 = w1
               \<and> script_tags w2 = [script_src ''G-ABCDE12345'']
               \<and> init_resume (awaited (Some 0) (script_onerror 0 w2)) ga2
                   = Some (Inl (Error
                        ''GA4 initialization failed: Failed to load Google Analytics script''),
                      ga2\<lparr>initializationState := FAILED\<rparr>)))"
  by (simp add: shop_tracker_def shop_config_def isInitialized_def
        fresh_page_def isGtagAvailable_def
        isBrowser_def init_def loadGoogleAnalytics_def configureGA_def Let_def awaited_def
        script_onerror_def settle_def init_resume_def)

end
